theory Spec2Isabelle
  imports Complex_Main "HOL-Library.Product_Lexorder"
begin

section \<open>Values of the daily table\<close>

text \<open>
  The analyzer class \<open>KITherapeutAnalyzer\<close> of \<open>Substanten.py\<close> keeps pandas tables.
  Floating-point numbers are modelled as reals; the one special float the code depends on,
  NaN, is a value of its own.  A daily record is a Python dict, so a numeric entry of a row
  is \<open>Absent\<close> (the dict has no such key), \<open>NaN\<close> or a number.  In a table built from a
  list of dicts an absent key reads as NaN, and a column exists when some row has the key.
\<close>

datatype cell = Absent | NaN | Num real

fun notna :: "cell \<Rightarrow> bool" where
  "notna (Num x) = True"
| "notna NaN = False"
| "notna Absent = False"

text \<open>The numbers of a series, missing entries skipped (pandas reductions use \<open>skipna\<close>).\<close>

fun dropna :: "cell list \<Rightarrow> real list" where
  "dropna [] = []"
| "dropna (Num x # cs) = x # dropna cs"
| "dropna (NaN # cs) = dropna cs"
| "dropna (Absent # cs) = dropna cs"

text \<open>\<open>Series.mean()\<close>: NaN (here \<open>None\<close>) when there is no number.\<close>

definition mean :: "real list \<Rightarrow> real option" where
  "mean xs = (if xs = [] then None else Some (sum_list xs / real (length xs)))"

text \<open>Sum of squared deviations from the mean.\<close>

definition sq_dev :: "real list \<Rightarrow> real" where
  "sq_dev xs = (let m = sum_list xs / real (length xs) in sum_list (map (\<lambda>x. (x - m)\<^sup>2) xs))"

text \<open>\<open>Series.std()\<close>: the sample standard deviation (\<open>ddof = 1\<close>), NaN below two numbers.\<close>

definition std :: "real list \<Rightarrow> real option" where
  "std xs = (if length xs < 2 then None else Some (sqrt (sq_dev xs / real (length xs - 1))))"

text \<open>A float as a cell of a record: the NaN of a reduction becomes the NaN cell.\<close>

fun to_cell :: "real option \<Rightarrow> cell" where
  "to_cell None = NaN"
| "to_cell (Some x) = Num x"

section \<open>The daily metrics table\<close>

datatype numcol =
    total_sleep_min | deep_sleep_min | light_sleep_min | rem_sleep_min | wake_min
  | avg_heart_rate | max_heart_rate | min_heart_rate | heart_rate_std
  | avg_consumption_rating | total_daily_cost
  | sleep_efficiency | hrv_proxy

text \<open>
  One record of \<open>combined_records\<close>.  The keys \<open>date\<close> (a timestamp at midnight) and
  \<open>date_str\<close> are both determined by the calendar date, which is kept once, as the
  proleptic Gregorian ordinal of the day.  The float-valued keys are read through \<open>num\<close>;
  the other keys are \<open>None\<close> when the dict does not have them.
\<close>

record row =
  date :: int
  num :: "numcol \<Rightarrow> cell"
  heart_rate_entries :: "nat option"
  consumption_count :: "nat option"
  evening_consumption_count :: "nat option"
  has_sleep_data :: "bool option"
  has_heart_rate_data :: "bool option"
  has_consumption_data :: "bool option"
  substances_today :: "string list option"
  evening_substances :: "string list option"

type_synonym dataframe = "row list"

text \<open>\<open>col in df.columns\<close> for a float column.\<close>

definition in_columns :: "numcol \<Rightarrow> dataframe \<Rightarrow> bool" where
  "in_columns c df = (\<exists>r \<in> set df. num r c \<noteq> Absent)"

text \<open>The numbers of the column \<open>df[c]\<close>.\<close>

definition col_values :: "numcol \<Rightarrow> dataframe \<Rightarrow> real list" where
  "col_values c df = dropna (map (\<lambda>r. num r c) df)"

text \<open>The numbers of the column \<open>df['consumption_count']\<close>.\<close>

definition count_values :: "dataframe \<Rightarrow> real list" where
  "count_values df = map real (List.map_filter consumption_count df)"

section \<open>Recommendations\<close>

text \<open>
  The texts of \<open>_generate_simple_recommendations\<close>, each with the number it prints.
\<close>

datatype recommendation =
    IncreaseSleep real
  | SleepPossiblyTooHigh real
  | LowerHeartRate real
  | ReduceFrequency real
  | NoSpecificRecommendations

definition sleep_recommendation :: "dataframe \<Rightarrow> recommendation list" where
  "sleep_recommendation df =
     (if in_columns total_sleep_min df then
        (case mean (col_values total_sleep_min df) of
           None \<Rightarrow> []
         | Some avg_sleep \<Rightarrow>
             if avg_sleep < 360 then [IncreaseSleep (avg_sleep / 60)]
             else if avg_sleep > 540 then [SleepPossiblyTooHigh (avg_sleep / 60)]
             else [])
      else [])"

definition heart_rate_recommendation :: "dataframe \<Rightarrow> recommendation list" where
  "heart_rate_recommendation df =
     (if in_columns avg_heart_rate df then
        (case mean (col_values avg_heart_rate df) of
           None \<Rightarrow> []
         | Some avg_hr \<Rightarrow> if avg_hr > 80 then [LowerHeartRate avg_hr] else [])
      else [])"

definition consumption_recommendation :: "dataframe \<Rightarrow> recommendation list" where
  "consumption_recommendation df =
     (if \<exists>r \<in> set df. consumption_count r \<noteq> None then
        (case mean (count_values df) of
           None \<Rightarrow> []
         | Some avg_consumption \<Rightarrow>
             if avg_consumption > 1 then [ReduceFrequency avg_consumption] else [])
      else [])"

definition generate_simple_recommendations :: "dataframe \<Rightarrow> recommendation list" where
  "generate_simple_recommendations df =
     (let recommendations =
            sleep_recommendation df @ heart_rate_recommendation df @ consumption_recommendation df
      in if recommendations = [] then [NoSpecificRecommendations] else recommendations)"

section \<open>Raw records and normalized observations\<close>

text \<open>
  A pandas timestamp: the calendar day (\<open>.dt.date\<close>, as ordinal), the hour of the day
  (\<open>.dt.hour\<close>, below 24) and what is left below the hour.  Timestamps are ordered by
  \<open>ts_key\<close>.
\<close>

record timestamp =
  ts_date :: int
  ts_hour :: nat
  ts_rest :: nat

definition ts_key :: "timestamp \<Rightarrow> int \<times> nat \<times> nat" where
  "ts_key t = (ts_date t, ts_hour t, ts_rest t)"

text \<open>
  What the library call \<open>pd.to_datetime\<close> does with a string: it raises, or it returns the
  missing timestamp NaT, or a timestamp.  The parser itself is pandas code; the functions
  below take it as the argument \<open>to_datetime\<close>.
\<close>

datatype parsed = ParseError | NaT | Timestamp timestamp

definition parse_timestamp :: "(string \<Rightarrow> parsed) \<Rightarrow> string \<Rightarrow> string \<Rightarrow> parsed" where
  "parse_timestamp to_datetime date_str time_str =
     (case to_datetime (date_str @ '' '' @ time_str) of
        ParseError \<Rightarrow> (case to_datetime date_str of ParseError \<Rightarrow> NaT | r \<Rightarrow> r)
      | r \<Rightarrow> r)"

text \<open>
  A value of a raw record as \<open>float(...)\<close> sees it: a number (an int, a float or a numeric
  string), or anything on which \<open>float\<close> raises.
\<close>

datatype pyval = Number real | NotNumeric

fun py_float :: "pyval \<Rightarrow> real option" where
  "py_float (Number x) = Some x"
| "py_float NotNumeric = None"

text \<open>\<open>d.get(key, default)\<close> on an optional key.\<close>

fun get_or :: "'a option \<Rightarrow> 'a \<Rightarrow> 'a" where
  "get_or None d = d"
| "get_or (Some v) d = v"

text \<open>A consumption entry as the entry screens store it (a dict; every key may be absent).\<close>

record entry =
  e_date :: "string option"
  e_time :: "string option"
  e_substance :: "string option"
  e_dosage :: "string option"
  e_rating :: "pyval option"
  e_cost :: "pyval option"
  e_mood :: "string option"
  e_setting :: "string option"
  e_experience :: "string option"

record consumption_obs =
  c_datetime :: timestamp
  c_date :: string
  c_time :: string
  c_type :: string
  c_amount :: nat
  c_dosage :: string
  c_rating :: real
  c_cost :: real
  c_mood :: string
  c_setting :: string
  c_experience :: string

text \<open>
  One pass of the loop of \<open>load_consumption_data\<close>: \<open>None\<close> when the entry is skipped
  (\<open>continue\<close>), either for a missing timestamp or for an exception of \<open>float\<close>.
\<close>

definition load_entry :: "(string \<Rightarrow> parsed) \<Rightarrow> entry \<Rightarrow> consumption_obs option" where
  "load_entry to_datetime e =
     (let entry_date = get_or (e_date e) [];
          entry_time = get_or (e_time e) ''00:00''
      in case parse_timestamp to_datetime entry_date entry_time of
           Timestamp datetime_obj \<Rightarrow>
             (case py_float (get_or (e_rating e) (Number 0)) of
                None \<Rightarrow> None
              | Some rating \<Rightarrow>
                  (case py_float (get_or (e_cost e) (Number 0)) of
                     None \<Rightarrow> None
                   | Some cost \<Rightarrow>
                       Some \<lparr> c_datetime = datetime_obj, c_date = entry_date, c_time = entry_time,
                              c_type = get_or (e_substance e) ''Unbekannt'', c_amount = 1,
                              c_dosage = get_or (e_dosage e) [], c_rating = rating, c_cost = cost,
                              c_mood = get_or (e_mood e) [], c_setting = get_or (e_setting e) [],
                              c_experience = get_or (e_experience e) [] \<rparr>))
         | _ \<Rightarrow> None)"

text \<open>A health sample as imported (a dict).\<close>

record sample =
  h_Type :: "string option"
  h_value :: "pyval option"
  h_date :: "string option"
  h_time :: "string option"
  h_notes :: "string option"
  h_source :: "string option"

datatype sleep_stage = Deep | Light | Rem | Wake | Total

record sleep_obs =
  s_datetime :: timestamp
  s_date :: string
  s_time :: string
  sleep_type :: sleep_stage
  value_minutes :: real
  s_source :: string

record heart_rate_obs =
  hr_datetime :: timestamp
  hr_date :: string
  hr_time :: string
  heart_rate :: real
  hr_context :: string
  hr_source :: string

text \<open>\<open>str.lower()\<close> on ASCII letters, and the substring test \<open>word in s\<close>.\<close>

definition lower_char :: "char \<Rightarrow> char" where
  "lower_char c =
     (let n = (of_char c :: nat) in if 65 \<le> n \<and> n \<le> 90 then char_of (n + 32) else c)"

definition lower :: "string \<Rightarrow> string" where
  "lower s = map lower_char s"

fun contains :: "string \<Rightarrow> string \<Rightarrow> bool" where
  "contains w [] = (w = [])"
| "contains w (c # cs) = (take (length w) (c # cs) = w \<or> contains w cs)"

definition any_in :: "string list \<Rightarrow> string \<Rightarrow> bool" where
  "any_in words s = (\<exists>w \<in> set words. contains w s)"

definition classify_sleep :: "string \<Rightarrow> sleep_stage" where
  "classify_sleep entry_type =
     (if contains ''deep'' entry_type \<or> contains ''tief'' entry_type then Deep
      else if contains ''shallow'' entry_type \<or> contains ''leicht'' entry_type then Light
      else if contains ''rem'' entry_type then Rem
      else if contains ''wake'' entry_type \<or> contains ''wach'' entry_type then Wake
      else Total)"

datatype health_obs = SleepObs sleep_obs | HeartRateObs heart_rate_obs

text \<open>One pass of the loop of \<open>load_health_data\<close>; \<open>None\<close> when nothing is appended.\<close>

definition load_sample :: "(string \<Rightarrow> parsed) \<Rightarrow> sample \<Rightarrow> health_obs option" where
  "load_sample to_datetime e =
     (let entry_type = lower (get_or (h_Type e) []);
          entry_value = get_or (h_value e) (Number 0);
          entry_date = get_or (h_date e) [];
          entry_time = get_or (h_time e) ''00:00''
      in case parse_timestamp to_datetime entry_date entry_time of
           Timestamp datetime_obj \<Rightarrow>
             if any_in [''sleep'', ''schlaf'', ''deep'', ''shallow'', ''rem'', ''wake''] entry_type then
               (case py_float entry_value of
                  None \<Rightarrow> None
                | Some v \<Rightarrow>
                    Some (SleepObs \<lparr> s_datetime = datetime_obj, s_date = entry_date,
                                     s_time = entry_time, sleep_type = classify_sleep entry_type,
                                     value_minutes = v, s_source = get_or (h_source e) ''manual'' \<rparr>))
             else if any_in [''heart'', ''herz'', ''hr'', ''pulse'', ''puls''] entry_type then
               (case py_float entry_value of
                  None \<Rightarrow> None
                | Some v \<Rightarrow>
                    Some (HeartRateObs \<lparr> hr_datetime = datetime_obj, hr_date = entry_date,
                                         hr_time = entry_time, heart_rate = v,
                                         hr_context = get_or (h_notes e) [],
                                         hr_source = get_or (h_source e) ''manual'' \<rparr>))
             else None
         | _ \<Rightarrow> None)"

fun the_sleep :: "health_obs \<Rightarrow> sleep_obs option" where
  "the_sleep (SleepObs x) = Some x"
| "the_sleep (HeartRateObs x) = None"

fun the_heart_rate :: "health_obs \<Rightarrow> heart_rate_obs option" where
  "the_heart_rate (HeartRateObs x) = Some x"
| "the_heart_rate (SleepObs x) = None"

section \<open>Results of the analyses\<close>

text \<open>
  The result dicts carry \<open>"status": "no_data"\<close> with a message, or \<open>"status": "success"\<close>
  with the results.
\<close>

datatype 'a outcome = NoData | Success 'a

text \<open>
  The interpretation texts of \<open>_interpret_correlation\<close> and \<open>_interpret_substance_effect\<close>,
  by name; the generic ones carry what they print.
\<close>

datatype strength = Stark | Maessig | Schwach

datatype direction = Positive | Negative

datatype corr_text =
    MoreSleepLowerHeartRate | MoreSleepHigherHeartRate
  | MoreDeepSleepLowerHeartRate | MoreDeepSleepHigherHeartRate
  | HigherRatingHigherHeartRate | HigherRatingLowerHeartRate
  | HigherCostLessSleep | HigherCostMoreSleep
  | GenericCorrelation strength direction

datatype effect_text =
    KnownEffect string numcol
  | Erhoeht string numcol real
  | Verringert string numcol real
  | NoClearEffect string numcol

record correlation_record =
  correlation :: real
  sample_n :: nat
  corr_interpretation :: corr_text

record effect_record =
  with_substance :: real
  without_substance :: real
  difference_percent :: real
  effect_interpretation :: effect_text

record data_summary =
  days_with_sleep_data :: nat
  days_with_heart_rate_data :: nat
  days_with_consumption_data :: nat
  unique_substances :: nat

text \<open>
  The dicts \<open>correlations\<close> and \<open>substance_effects\<close> are maps; the key
  \<open>f"{col1}_{col2}"\<close> is kept as the pair of its two parts.
\<close>

record correlation_results =
  total_days :: nat
  numeric_columns :: "numcol list"
  correlations :: "numcol \<times> numcol \<rightharpoonup> correlation_record"
  substance_effects :: "string \<times> numcol \<rightharpoonup> effect_record"
  summary :: data_summary

section \<open>The analyzer and its loaders\<close>

text \<open>
  The state of a \<open>KITherapeutAnalyzer\<close>: the four slots of \<open>self.data\<close> and
  \<open>self.correlation_results\<close>.  \<open>None\<close> is Python's \<open>None\<close> (for
  \<open>correlation_results\<close>, the empty dict of \<open>__init__\<close>).
\<close>

record analyzer =
  sleep_data :: "sleep_obs list option"
  heart_rate_data :: "heart_rate_obs list option"
  consumption_data :: "consumption_obs list option"
  combined_data :: "dataframe option"
  correlation_results :: "correlation_results option"

definition init :: analyzer where
  "init = \<lparr> sleep_data = None, heart_rate_data = None, consumption_data = None,
             combined_data = None, correlation_results = None \<rparr>"

text \<open>
  \<open>load_consumption_data\<close> returns the sorted table or \<open>None\<close>, and stores the table.
  \<open>sort_values\<close> is modelled by the stable \<open>sort_key\<close>.
\<close>

definition load_consumption_data ::
  "(string \<Rightarrow> parsed) \<Rightarrow> entry list \<Rightarrow> analyzer \<Rightarrow> consumption_obs list option \<times> analyzer" where
  "load_consumption_data to_datetime entries_data self =
     (if entries_data = [] then (None, self)
      else let consumption_list = List.map_filter (load_entry to_datetime) entries_data
           in if consumption_list \<noteq> [] then
                (let df = sort_key (\<lambda>x. ts_key (c_datetime x)) consumption_list
                 in (Some df, self\<lparr>consumption_data := Some df\<rparr>))
              else (None, self))"

definition load_health_data :: "(string \<Rightarrow> parsed) \<Rightarrow> sample list \<Rightarrow> analyzer \<Rightarrow> analyzer" where
  "load_health_data to_datetime health_data self =
     (if health_data = [] then self
      else let loaded = List.map_filter (load_sample to_datetime) health_data;
               sleep_list = List.map_filter the_sleep loaded;
               heart_rate_list = List.map_filter the_heart_rate loaded;
               self1 = (if sleep_list \<noteq> []
                        then self\<lparr>sleep_data :=
                                    Some (sort_key (\<lambda>x. ts_key (s_datetime x)) sleep_list)\<rparr>
                        else self)
           in if heart_rate_list \<noteq> []
              then self1\<lparr>heart_rate_data :=
                           Some (sort_key (\<lambda>x. ts_key (hr_datetime x)) heart_rate_list)\<rparr>
              else self1)"

section \<open>The daily aggregator\<close>

text \<open>
  \<open>df.groupby(key)\<close>: one group per key, the keys ascending, the rows of a group in the
  order of the table.
\<close>

definition groupby :: "('a \<Rightarrow> 'k::linorder) \<Rightarrow> 'a list \<Rightarrow> ('k \<times> 'a list) list" where
  "groupby key xs = map (\<lambda>k. (k, filter (\<lambda>x. key x = k) xs)) (sort (remdups (map key xs)))"

text \<open>\<open>Series.unique()\<close>: the distinct values in order of first appearance.\<close>

fun unique :: "'a list \<Rightarrow> 'a list" where
  "unique [] = []"
| "unique (x # xs) = x # unique (filter (\<lambda>y. y \<noteq> x) xs)"

text \<open>\<open>Series.max()\<close> and \<open>Series.min()\<close> of numbers: NaN on the empty series.\<close>

fun series_max :: "real list \<Rightarrow> real option" where
  "series_max [] = None"
| "series_max (x # xs) = Some (fold max xs x)"

fun series_min :: "real list \<Rightarrow> real option" where
  "series_min [] = None"
| "series_min (x # xs) = Some (fold min xs x)"

text \<open>
  \<open>next((r for r in combined_records if r['date_str'] == str(date)), None)\<close> followed by
  the update of the record found, in place.
\<close>

fun update_first :: "('a \<Rightarrow> bool) \<Rightarrow> ('a \<Rightarrow> 'a) \<Rightarrow> 'a list \<Rightarrow> 'a list" where
  "update_first p f [] = []"
| "update_first p f (r # rs) = (if p r then f r # rs else r # update_first p f rs)"

definition no_keys :: "int \<Rightarrow> row" where
  "no_keys d = \<lparr> date = d, num = (\<lambda>c. Absent), heart_rate_entries = None,
                  consumption_count = None, evening_consumption_count = None,
                  has_sleep_data = None, has_heart_rate_data = None, has_consumption_data = None,
                  substances_today = None, evening_substances = None \<rparr>"

definition stage_sum :: "sleep_stage \<Rightarrow> sleep_obs list \<Rightarrow> real" where
  "stage_sum t grp = sum_list (map value_minutes (filter (\<lambda>x. sleep_type x = t) grp))"

definition sleep_record :: "int \<times> sleep_obs list \<Rightarrow> row" where
  "sleep_record dg =
     (case dg of (d, grp) \<Rightarrow>
        (no_keys d)\<lparr> num := (\<lambda>c. Absent)
                        (total_sleep_min := Num (stage_sum Total grp),
                         deep_sleep_min := Num (stage_sum Deep grp),
                         light_sleep_min := Num (stage_sum Light grp),
                         rem_sleep_min := Num (stage_sum Rem grp),
                         wake_min := Num (stage_sum Wake grp)),
                     has_sleep_data := Some True \<rparr>)"

definition set_heart_rate :: "heart_rate_obs list \<Rightarrow> row \<Rightarrow> row" where
  "set_heart_rate grp r =
     (let hr = map heart_rate grp
      in r\<lparr> num := (num r)
                 (avg_heart_rate := to_cell (mean hr),
                  max_heart_rate := to_cell (series_max hr),
                  min_heart_rate := to_cell (series_min hr),
                  heart_rate_std := to_cell (std hr)),
             heart_rate_entries := Some (length grp),
             has_heart_rate_data := Some True \<rparr>)"

definition heart_rate_step :: "int \<times> heart_rate_obs list \<Rightarrow> row list \<Rightarrow> row list" where
  "heart_rate_step dg combined_records =
     (case dg of (d, grp) \<Rightarrow>
        if \<exists>r \<in> set combined_records. date r = d
        then update_first (\<lambda>r. date r = d) (set_heart_rate grp) combined_records
        else combined_records @ [(set_heart_rate grp (no_keys d))\<lparr>has_sleep_data := Some False\<rparr>])"

definition set_consumption :: "consumption_obs list \<Rightarrow> row \<Rightarrow> row" where
  "set_consumption grp r =
     r\<lparr> num := (num r)
            (avg_consumption_rating := to_cell (mean (map c_rating grp)),
             total_daily_cost := Num (sum_list (map c_cost grp))),
        substances_today := Some (unique (map c_type grp)),
        consumption_count := Some (length grp),
        has_consumption_data := Some True \<rparr>"

text \<open>The evening rows of a group: \<open>hour >= 18\<close> and \<open>hour <= 24\<close>.\<close>

definition evening_consumption :: "consumption_obs list \<Rightarrow> consumption_obs list" where
  "evening_consumption grp =
     filter (\<lambda>x. ts_hour (c_datetime x) \<ge> 18 \<and> ts_hour (c_datetime x) \<le> 24) grp"

definition set_evening :: "consumption_obs list \<Rightarrow> row \<Rightarrow> row" where
  "set_evening grp r =
     (let evening = evening_consumption grp
      in if evening \<noteq> []
         then r\<lparr> evening_substances := Some (unique (map c_type evening)),
                  evening_consumption_count := Some (length evening) \<rparr>
         else r)"

definition consumption_step :: "int \<times> consumption_obs list \<Rightarrow> row list \<Rightarrow> row list" where
  "consumption_step dg combined_records =
     (case dg of (d, grp) \<Rightarrow>
        if \<exists>r \<in> set combined_records. date r = d
        then update_first (\<lambda>r. date r = d) (\<lambda>r. set_evening grp (set_consumption grp r))
               combined_records
        else combined_records @
               [(set_consumption grp (no_keys d))
                  \<lparr>has_sleep_data := Some False, has_heart_rate_data := Some False\<rparr>])"

text \<open>A slot of \<open>self.data\<close> that is \<open>None\<close> or an empty table contributes no rows.\<close>

fun rows_of :: "'a list option \<Rightarrow> 'a list" where
  "rows_of None = []"
| "rows_of (Some xs) = xs"

definition combined_records :: "analyzer \<Rightarrow> row list" where
  "combined_records self =
     (let records1 = map sleep_record
                       (groupby (\<lambda>x. ts_date (s_datetime x)) (rows_of (sleep_data self)));
          records2 = fold heart_rate_step
                       (groupby (\<lambda>x. ts_date (hr_datetime x)) (rows_of (heart_rate_data self)))
                       records1
      in fold consumption_step
           (groupby (\<lambda>x. ts_date (c_datetime x)) (rows_of (consumption_data self)))
           records2)"

text \<open>\<open>df[col] = df[col].fillna(0)\<close> for a column of the table.\<close>

fun fill0 :: "cell \<Rightarrow> cell" where
  "fill0 (Num x) = Num x"
| "fill0 NaN = Num 0"
| "fill0 Absent = Num 0"

definition fillna_col :: "numcol \<Rightarrow> dataframe \<Rightarrow> dataframe" where
  "fillna_col c df =
     (if in_columns c df then map (\<lambda>r. r\<lparr>num := (num r)(c := fill0 (num r c))\<rparr>) df else df)"

definition fill_cols :: "numcol list" where
  "fill_cols = [total_sleep_min, deep_sleep_min, light_sleep_min, rem_sleep_min, wake_min,
                avg_heart_rate, max_heart_rate, min_heart_rate, heart_rate_std,
                avg_consumption_rating, total_daily_cost]"

text \<open>
  \<open>combine_data\<close> returns the table, or \<open>None\<close> when there is no record, and stores the
  table.  No operation of the \<open>try\<close> block raises in this model, so the \<open>except\<close>
  branch does not appear.
\<close>

definition combine_data :: "analyzer \<Rightarrow> dataframe option \<times> analyzer" where
  "combine_data self =
     (let records = combined_records self
      in if records \<noteq> [] then
           (let df = sort_key date (fold fillna_col fill_cols records)
            in (Some df, self\<lparr>combined_data := Some df\<rparr>))
         else (None, self))"

section \<open>The correlation engine\<close>

text \<open>A cell as the table shows it: a key the record does not have reads as NaN.\<close>

fun as_read :: "cell \<Rightarrow> cell" where
  "as_read Absent = NaN"
| "as_read c = c"

text \<open>
  The derived columns.  \<open>np.where(total_bed_time > 0, ..., 0)\<close> takes the second branch
  when the sum is NaN.
\<close>

definition efficiency :: "row \<Rightarrow> cell" where
  "efficiency r =
     (case (num r total_sleep_min, num r wake_min) of
        (Num t, Num w) \<Rightarrow> if t + w > 0 then Num ((t / (t + w)) * 100) else Num 0
      | _ \<Rightarrow> Num 0)"

definition add_sleep_efficiency :: "dataframe \<Rightarrow> dataframe" where
  "add_sleep_efficiency df =
     (if in_columns total_sleep_min df \<and> in_columns wake_min df
      then map (\<lambda>r. r\<lparr>num := (num r)(sleep_efficiency := efficiency r)\<rparr>) df
      else df)"

definition add_hrv_proxy :: "dataframe \<Rightarrow> dataframe" where
  "add_hrv_proxy df =
     (if in_columns heart_rate_std df
      then map (\<lambda>r. r\<lparr>num := (num r)(hrv_proxy := as_read (num r heart_rate_std))\<rparr>) df
      else df)"

definition candidate_cols :: "numcol list" where
  "candidate_cols = [total_sleep_min, deep_sleep_min, light_sleep_min, rem_sleep_min,
                     sleep_efficiency, avg_heart_rate, hrv_proxy, avg_consumption_rating,
                     total_daily_cost]"

text \<open>
  \<open>col in df.columns and df[col].notna().any() and len(df[col].unique()) > 1\<close>;
  \<open>unique()\<close> keeps NaN as one of the values.
\<close>

definition eligible :: "dataframe \<Rightarrow> numcol \<Rightarrow> bool" where
  "eligible df c =
     (in_columns c df \<and> (\<exists>r \<in> set df. notna (num r c))
      \<and> length (unique (map (\<lambda>r. as_read (num r c)) df)) > 1)"

definition numeric_cols :: "dataframe \<Rightarrow> numcol list" where
  "numeric_cols df = filter (eligible df) candidate_cols"

text \<open>\<open>df[[col1, col2]].dropna()\<close>: the pairs of the rows where both are numbers.\<close>

fun both :: "cell \<Rightarrow> cell \<Rightarrow> (real \<times> real) option" where
  "both (Num x) (Num y) = Some (x, y)"
| "both a b = None"

definition valid_data :: "dataframe \<Rightarrow> numcol \<Rightarrow> numcol \<Rightarrow> (real \<times> real) list" where
  "valid_data df col1 col2 = List.map_filter (\<lambda>r. both (num r col1) (num r col2)) df"

text \<open>
  \<open>Series.corr\<close> (Pearson, through \<open>np.corrcoef\<close>): the covariance divided by both
  standard deviations, NaN where one of them is zero.  (\<open>np.corrcoef\<close> finally clips the
  value into [-1, 1]; on reals the value lies there already, as is proved for the records.)
\<close>

definition cov :: "real list \<Rightarrow> real list \<Rightarrow> real" where
  "cov xs ys =
     (let mx = sum_list xs / real (length xs); my = sum_list ys / real (length ys)
      in sum_list (map (\<lambda>(x, y). (x - mx) * (y - my)) (zip xs ys)) / real (length xs - 1))"

definition corr :: "(real \<times> real) list \<Rightarrow> real option" where
  "corr ps =
     (let xs = map fst ps; ys = map snd ps;
          sx = sqrt (cov xs xs); sy = sqrt (cov ys ys)
      in if sx = 0 \<or> sy = 0 then None else Some (cov xs ys / sx / sy))"

fun interpretations :: "numcol \<times> numcol \<Rightarrow> real \<Rightarrow> corr_text option" where
  "interpretations (total_sleep_min, avg_heart_rate) r =
     Some (if r < 0 then MoreSleepLowerHeartRate else MoreSleepHigherHeartRate)"
| "interpretations (deep_sleep_min, avg_heart_rate) r =
     Some (if r < 0 then MoreDeepSleepLowerHeartRate else MoreDeepSleepHigherHeartRate)"
| "interpretations (avg_consumption_rating, avg_heart_rate) r =
     Some (if r > 0 then HigherRatingHigherHeartRate else HigherRatingLowerHeartRate)"
| "interpretations (total_daily_cost, total_sleep_min) r =
     Some (if r < 0 then HigherCostLessSleep else HigherCostMoreSleep)"
| "interpretations k r = None"

definition interpret_correlation :: "numcol \<Rightarrow> numcol \<Rightarrow> real \<Rightarrow> corr_text" where
  "interpret_correlation col1 col2 r =
     (case interpretations (col1, col2) r of
        Some t \<Rightarrow> t
      | None \<Rightarrow>
         (case interpretations (col2, col1) r of
            Some t \<Rightarrow> t
          | None \<Rightarrow>
              GenericCorrelation
                (if \<bar>r\<bar> > 0.7 then Stark else if \<bar>r\<bar> > 0.4 then Maessig else Schwach)
                (if r > 0 then Positive else Negative)))"

text \<open>The body of the inner loop: the record for a pair of columns, if one is stored.\<close>

definition correlation_entry :: "dataframe \<Rightarrow> numcol \<Rightarrow> numcol \<Rightarrow> correlation_record option" where
  "correlation_entry df col1 col2 =
     (let valid = valid_data df col1 col2
      in if length valid \<ge> 3 then
           (case corr valid of
              None \<Rightarrow> None
            | Some r \<Rightarrow>
                if \<bar>r\<bar> > 0.3
                then Some \<lparr> correlation = r, sample_n = length valid,
                            corr_interpretation = interpret_correlation col1 col2 r \<rparr>
                else None)
         else None)"

text \<open>\<open>for i, col1 in enumerate(cols): for col2 in cols[i + 1:]\<close>, in order.\<close>

fun pairs :: "'a list \<Rightarrow> ('a \<times> 'a) list" where
  "pairs [] = []"
| "pairs (x # xs) = map (Pair x) xs @ pairs xs"

definition store_correlation ::
  "dataframe \<Rightarrow> numcol \<times> numcol \<Rightarrow> (numcol \<times> numcol \<rightharpoonup> correlation_record)
     \<Rightarrow> (numcol \<times> numcol \<rightharpoonup> correlation_record)" where
  "store_correlation df p m =
     (case correlation_entry df (fst p) (snd p) of None \<Rightarrow> m | Some e \<Rightarrow> m(p \<mapsto> e))"

definition compute_correlations ::
  "dataframe \<Rightarrow> numcol list \<Rightarrow> (numcol \<times> numcol \<rightharpoonup> correlation_record)" where
  "compute_correlations df cols = fold (store_correlation df) (pairs cols) Map.empty"

subsection \<open>Substance effects\<close>

definition percent_diff :: "real \<Rightarrow> real \<Rightarrow> real" where
  "percent_diff with_mean without_mean = ((with_mean - without_mean) / without_mean) * 100"

definition known_substances :: "string list" where
  "known_substances = [''Alkohol'', ''Cannabis'', ''MDMA'']"

definition effect_metrics :: "numcol list" where
  "effect_metrics = [avg_heart_rate, total_sleep_min, sleep_efficiency]"

definition interpret_substance_effect :: "string \<Rightarrow> numcol \<Rightarrow> real \<Rightarrow> effect_text" where
  "interpret_substance_effect substance metric diff =
     (if substance \<in> set known_substances \<and> metric \<in> set effect_metrics
      then KnownEffect substance metric
      else if \<bar>diff\<bar> > 10 then
        (if diff > 0 then Erhoeht substance metric \<bar>diff\<bar>
         else Verringert substance metric \<bar>diff\<bar>)
      else NoClearEffect substance metric)"

text \<open>The indicator column \<open>used_{substance}\<close>.\<close>

definition used :: "string \<Rightarrow> row \<Rightarrow> bool" where
  "used substance r =
     (case substances_today r of None \<Rightarrow> False | Some xs \<Rightarrow> substance \<in> set xs)"

definition effect_entry :: "dataframe \<Rightarrow> string \<Rightarrow> numcol \<Rightarrow> effect_record option" where
  "effect_entry df substance metric =
     (if in_columns metric df then
        (case (mean (col_values metric (filter (used substance) df)),
               mean (col_values metric (filter (\<lambda>r. \<not> used substance r) df))) of
           (Some w, Some wo) \<Rightarrow>
             if w > 0 \<and> wo > 0 then
               (let diff = percent_diff w wo
                in Some \<lparr> with_substance = w, without_substance = wo, difference_percent = diff,
                          effect_interpretation = interpret_substance_effect substance metric diff \<rparr>)
             else None
         | _ \<Rightarrow> None)
      else None)"

definition store_effect ::
  "dataframe \<Rightarrow> string \<Rightarrow> numcol \<Rightarrow> (string \<times> numcol \<rightharpoonup> effect_record)
     \<Rightarrow> (string \<times> numcol \<rightharpoonup> effect_record)" where
  "store_effect df substance metric m =
     (case effect_entry df substance metric of
        None \<Rightarrow> m
      | Some e \<Rightarrow> m((substance, metric) \<mapsto> e))"

definition substance_step ::
  "dataframe \<Rightarrow> string \<Rightarrow> (string \<times> numcol \<rightharpoonup> effect_record)
     \<Rightarrow> (string \<times> numcol \<rightharpoonup> effect_record)" where
  "substance_step df substance m =
     (if (\<exists>r \<in> set df. used substance r) \<and> (\<exists>r \<in> set df. \<not> used substance r)
      then fold (store_effect df substance) effect_metrics m
      else m)"

text \<open>
  \<open>list(set(substances_list))\<close>: the distinct names.  Python fixes no order for them;
  the effects are stored under keys that name the substance, so the order does not show
  in the resulting dict.
\<close>

definition unique_substances_of :: "dataframe \<Rightarrow> string list" where
  "unique_substances_of df = remdups (concat (List.map_filter substances_today df))"

definition count_true :: "(row \<Rightarrow> bool option) \<Rightarrow> dataframe \<Rightarrow> nat" where
  "count_true flag df = length (filter (\<lambda>r. flag r = Some True) df)"

definition perform_correlation_analysis ::
  "analyzer \<Rightarrow> correlation_results outcome \<times> analyzer" where
  "perform_correlation_analysis self =
     (case combined_data self of
        None \<Rightarrow> (NoData, self)
      | Some combined \<Rightarrow>
          if combined = [] then (NoData, self)
          else
            (let df = add_hrv_proxy (add_sleep_efficiency combined);
                 cols = numeric_cols df;
                 has_substances = (\<exists>r \<in> set df. substances_today r \<noteq> None);
                 substances = (if has_substances then unique_substances_of df else []);
                 results =
                   \<lparr> total_days = length df,
                     numeric_columns = cols,
                     correlations = compute_correlations df cols,
                     substance_effects = fold (substance_step df) substances Map.empty,
                     summary =
                       \<lparr> days_with_sleep_data = count_true has_sleep_data df,
                         days_with_heart_rate_data = count_true has_heart_rate_data df,
                         days_with_consumption_data = count_true has_consumption_data df,
                         unique_substances = length substances \<rparr> \<rparr>
             in (Success results, self\<lparr>correlation_results := Some results\<rparr>)))"

section \<open>Patterns, anomalies and the report\<close>

datatype weekday = Monday | Tuesday | Wednesday | Thursday | Friday | Saturday | Sunday

text \<open>\<open>.dt.day_name()\<close>: day 1 of the proleptic Gregorian calendar is a Monday.\<close>

definition day_name :: "int \<Rightarrow> weekday" where
  "day_name d =
     [Monday, Tuesday, Wednesday, Thursday, Friday, Saturday, Sunday] ! nat ((d + 6) mod 7)"

text \<open>The order of the groups of \<open>groupby('weekday')\<close>: the names, alphabetically.\<close>

definition weekdays_sorted :: "weekday list" where
  "weekdays_sorted = [Friday, Monday, Saturday, Sunday, Thursday, Tuesday, Wednesday]"

definition weekday_consumption :: "dataframe \<Rightarrow> (weekday \<times> real option) list" where
  "weekday_consumption df =
     map (\<lambda>w. (w, mean (count_values (filter (\<lambda>r. day_name (date r) = w) df))))
         (filter (\<lambda>w. \<exists>r \<in> set df. day_name (date r) = w) weekdays_sorted)"

text \<open>
  \<open>idxmax()\<close> with \<open>max()\<close>: the first label that carries the largest number, NaN entries
  skipped; \<open>None\<close> when the series has no number.
\<close>

fun idxmax :: "('k \<times> real option) list \<Rightarrow> ('k \<times> real) option" where
  "idxmax [] = None"
| "idxmax ((k, None) # xs) = idxmax xs"
| "idxmax ((k, Some v) # xs) =
     (case idxmax xs of
        None \<Rightarrow> Some (k, v)
      | Some (k', v') \<Rightarrow> if v' > v then Some (k', v') else Some (k, v))"

datatype pattern =
    HighestConsumptionOn weekday real
  | MoreSleepLowerHeartRatePattern
  | NoClearPatterns

text \<open>
  The first pattern.  Where the column \<open>consumption_count\<close> exists, some row has a count,
  so the series of weekday means has a number and \<open>idxmax\<close> finds a day.
\<close>

definition weekday_pattern :: "dataframe \<Rightarrow> pattern list" where
  "weekday_pattern df =
     (if \<exists>r \<in> set df. consumption_count r \<noteq> None then
        (if length (weekday_consumption df) > 0 then
           (case idxmax (weekday_consumption df) of
              Some (max_day, max_value) \<Rightarrow> [HighestConsumptionOn max_day max_value]
            | None \<Rightarrow> [])
         else [])
      else [])"

definition cell_gt :: "cell \<Rightarrow> real \<Rightarrow> bool" where
  "cell_gt c m = (case c of Num x \<Rightarrow> x > m | _ \<Rightarrow> False)"

definition cell_le :: "cell \<Rightarrow> real \<Rightarrow> bool" where
  "cell_le c m = (case c of Num x \<Rightarrow> x \<le> m | _ \<Rightarrow> False)"

definition sleep_pattern :: "dataframe \<Rightarrow> pattern list" where
  "sleep_pattern df =
     (if in_columns total_sleep_min df \<and> in_columns avg_heart_rate df then
        (case mean (col_values total_sleep_min df) of
           None \<Rightarrow> []
         | Some m \<Rightarrow>
            (let sleep_above_avg = filter (\<lambda>r. cell_gt (num r total_sleep_min) m) df;
                 sleep_below_avg = filter (\<lambda>r. cell_le (num r total_sleep_min) m) df
             in if length sleep_above_avg > 0 \<and> length sleep_below_avg > 0 then
                  (case (mean (col_values avg_heart_rate sleep_above_avg),
                         mean (col_values avg_heart_rate sleep_below_avg)) of
                     (Some hr_above, Some hr_below) \<Rightarrow>
                       if hr_above < hr_below then [MoreSleepLowerHeartRatePattern] else []
                   | _ \<Rightarrow> [])
                else []))
      else [])"

definition identify_simple_patterns :: "dataframe \<Rightarrow> pattern list" where
  "identify_simple_patterns df =
     (let patterns = weekday_pattern df @ sleep_pattern df
      in if patterns = [] then [NoClearPatterns] else patterns)"

text \<open>
  The anomaly loop of \<open>perform_machine_learning_analysis\<close>: the flagged rows (the source
  collects their index labels, one per row).  A comparison with NaN is false.
\<close>

definition anomalies :: "dataframe \<Rightarrow> row list" where
  "anomalies df =
     (if in_columns avg_heart_rate df then
        (case (mean (col_values avg_heart_rate df), std (col_values avg_heart_rate df)) of
           (Some mean_hr, Some std_hr) \<Rightarrow>
             if std_hr > 0
             then filter (\<lambda>r. case num r avg_heart_rate of
                                 Num x \<Rightarrow> \<bar>x - mean_hr\<bar> > 2 * std_hr
                               | _ \<Rightarrow> False) df
             else []
         | _ \<Rightarrow> [])
      else [])"

record ml_results =
  total_days_analyzed :: nat
  anomaly_percentage :: real
  clusters_identified :: nat
  patterns :: "pattern list"
  recommendations :: "recommendation list"
  anomaly_days :: nat

definition perform_machine_learning_analysis :: "analyzer \<Rightarrow> ml_results outcome" where
  "perform_machine_learning_analysis self =
     (case combined_data self of
        None \<Rightarrow> NoData
      | Some df \<Rightarrow>
          if df = [] then NoData
          else Success
                 \<lparr> total_days_analyzed = length df,
                   anomaly_percentage =
                     (if length df > 0
                      then (real (length (anomalies df)) / real (length df)) * 100 else 0),
                   clusters_identified = 1,
                   patterns = identify_simple_patterns df,
                   recommendations = generate_simple_recommendations df,
                   anomaly_days = length (anomalies df) \<rparr>)"

subsection \<open>The report\<close>

datatype error = ValueError

text \<open>
  The truth value Python takes of \<open>self.data['combined_data']\<close> in \<open>not ...\<close>: \<open>None\<close>
  is false; for a pandas table, \<open>DataFrame.__bool__\<close> raises \<open>ValueError\<close> (the truth
  value of a DataFrame is ambiguous), whatever the table holds.
\<close>

fun truth_value :: "dataframe option \<Rightarrow> error + bool" where
  "truth_value None = Inr False"
| "truth_value (Some df) = Inl ValueError"

datatype report = InsufficientDataMessage | Report string

text \<open>
  \<open>generate_comprehensive_report\<close>: the guard of lines 1955-1956, then the report text.
  The text assembled below the guard is the argument \<open>render\<close>.
\<close>

definition generate_comprehensive_report :: "(analyzer \<Rightarrow> string) \<Rightarrow> analyzer \<Rightarrow> error + report" where
  "generate_comprehensive_report render self =
     (case truth_value (combined_data self) of
        Inl e \<Rightarrow> Inl e
      | Inr b \<Rightarrow>
          if \<not> b \<or> rows_of (combined_data self) = [] then Inr InsufficientDataMessage
          else Inr (Report (render self)))"

section \<open>The core pipeline\<close>

text \<open>
  One run of the core on given input records: the two loaders, \<open>combine_data\<close>,
  \<open>perform_correlation_analysis\<close> and \<open>perform_machine_learning_analysis\<close>, each on the
  analyzer as the previous call left it.  The result is what the calls return, and the
  analyzer after the run.  (\<open>perform_ki_therapeut_analysis\<close> calls the health loader
  before the consumption loader; the two write different slots.)
\<close>

record outputs =
  out_consumption :: "consumption_obs list option"
  out_combined :: "dataframe option"
  out_correlation :: "correlation_results outcome"
  out_ml :: "ml_results outcome"

definition core_pipeline ::
  "(string \<Rightarrow> parsed) \<Rightarrow> entry list \<Rightarrow> sample list \<Rightarrow> analyzer \<Rightarrow> outputs \<times> analyzer" where
  "core_pipeline to_datetime entries_data health_data self =
     (let (consumption, self1) = load_consumption_data to_datetime entries_data self;
          self2 = load_health_data to_datetime health_data self1;
          (combined, self3) = combine_data self2;
          (correlation, self4) = perform_correlation_analysis self3;
          ml = perform_machine_learning_analysis self4
      in (\<lparr> out_consumption = consumption, out_combined = combined,
             out_correlation = correlation, out_ml = ml \<rparr>, self4))"

section \<open>Notions of the statements and proofs\<close>

text \<open>
  The anomaly rule in the words of the specification: a day is an anomaly day when its
  mean heart rate deviates from the overall mean by more than two standard deviations.
\<close>

definition is_anomaly_day :: "dataframe \<Rightarrow> row \<Rightarrow> bool" where
  "is_anomaly_day df r =
     (case (num r avg_heart_rate, mean (col_values avg_heart_rate df),
            std (col_values avg_heart_rate df)) of
        (Num x, Some m, Some s) \<Rightarrow> \<bar>x - m\<bar> > 2 * s
      | _ \<Rightarrow> False)"

text \<open>The calendar dates that appear in any of the three loaded series.\<close>

definition all_dates :: "analyzer \<Rightarrow> int set" where
  "all_dates self =
     (\<lambda>x. ts_date (s_datetime x)) ` set (rows_of (sleep_data self))
     \<union> (\<lambda>x. ts_date (hr_datetime x)) ` set (rows_of (heart_rate_data self))
     \<union> (\<lambda>x. ts_date (c_datetime x)) ` set (rows_of (consumption_data self))"

text \<open>
  A row after \<open>fillna(0)\<close> on the columns \<open>cs\<close> of the table \<open>df\<close> (used to describe
  the loop over \<open>numeric_cols\<close> in \<open>combine_data\<close>).
\<close>

definition filled :: "numcol list \<Rightarrow> dataframe \<Rightarrow> row \<Rightarrow> row" where
  "filled cs df r =
     r\<lparr>num := (\<lambda>c. if c \<in> set cs \<and> in_columns c df then fill0 (num r c) else num r c)\<rparr>"



section \<open>Example inputs\<close>

text \<open>Timestamps on the hour; day 738886 is 2024-01-01, a Monday.\<close>

definition at_hour :: "int \<Rightarrow> nat \<Rightarrow> timestamp" where
  "at_hour d h = \<lparr> ts_date = d, ts_hour = h, ts_rest = 0 \<rparr>"

definition hr_at :: "int \<Rightarrow> real \<Rightarrow> heart_rate_obs" where
  "hr_at d v = \<lparr> hr_datetime = at_hour d 8, hr_date = [], hr_time = ''08:00'', heart_rate = v,
                 hr_context = [], hr_source = ''manual'' \<rparr>"

definition sleep_at :: "int \<Rightarrow> sleep_stage \<Rightarrow> real \<Rightarrow> sleep_obs" where
  "sleep_at d t v = \<lparr> s_datetime = at_hour d 7, s_date = [], s_time = ''07:00'', sleep_type = t,
                      value_minutes = v, s_source = ''manual'' \<rparr>"

definition consumed_at :: "int \<Rightarrow> nat \<Rightarrow> string \<Rightarrow> real \<Rightarrow> consumption_obs" where
  "consumed_at d h substance rating =
     \<lparr> c_datetime = at_hour d h, c_date = [], c_time = [], c_type = substance, c_amount = 1,
       c_dosage = [], c_rating = rating, c_cost = 0, c_mood = [], c_setting = [],
       c_experience = [] \<rparr>"

text \<open>
  Five days with one heart-rate sample each, 60, 62, 61, 63 and 150, and no other data
  (the scenario of the specification).
\<close>

definition five_days :: analyzer where
  "five_days = init\<lparr>heart_rate_data :=
      Some [hr_at 738886 60, hr_at 738887 62, hr_at 738888 61, hr_at 738889 63, hr_at 738890 150]\<rparr>"

text \<open>One consumption entry at 20:00 on a day without health data.\<close>

definition evening_only :: analyzer where
  "evening_only = init\<lparr>consumption_data := Some [consumed_at 738886 20 ''Alkohol'' 3]\<rparr>"

text \<open>The same entry on a day that has a sleep sample.\<close>

definition evening_with_sleep :: analyzer where
  "evening_with_sleep =
     init\<lparr>sleep_data := Some [sleep_at 738886 Total 420],
          consumption_data := Some [consumed_at 738886 20 ''Alkohol'' 3]\<rparr>"

text \<open>
  The daily table of that scenario: a day with the single heart-rate sample \<open>v\<close> (its
  standard deviation, NaN for one sample, filled with 0) and nothing else.
\<close>

definition hr_day :: "int \<Rightarrow> real \<Rightarrow> row" where
  "hr_day d v =
     (no_keys d)\<lparr> num := (\<lambda>c. Absent)
                     (avg_heart_rate := Num v, max_heart_rate := Num v, min_heart_rate := Num v,
                      heart_rate_std := Num 0),
                  heart_rate_entries := Some 1,
                  has_sleep_data := Some False,
                  has_heart_rate_data := Some True \<rparr>"

definition five_day_table :: dataframe where
  "five_day_table = [hr_day 738886 60, hr_day 738887 62, hr_day 738888 61, hr_day 738889 63,
                     hr_day 738890 150]"

text \<open>The record of such a day before the missing values are filled.\<close>

definition raw_hr_day :: "int \<Rightarrow> real \<Rightarrow> row" where
  "raw_hr_day d v =
     (no_keys d)\<lparr> num := (\<lambda>c. Absent)
                     (avg_heart_rate := Num v, max_heart_rate := Num v, min_heart_rate := Num v,
                      heart_rate_std := NaN),
                  heart_rate_entries := Some 1,
                  has_sleep_data := Some False,
                  has_heart_rate_data := Some True \<rparr>"

text \<open>
  Three days with total sleep 400, 420, 440 minutes and mean heart rate 70, 65, 60: the more
  sleep, the lower the heart rate.
\<close>

definition sleep_hr_day :: "int \<Rightarrow> real \<Rightarrow> real \<Rightarrow> row" where
  "sleep_hr_day d s h =
     (no_keys d)\<lparr> num := (\<lambda>c. Absent)(total_sleep_min := Num s, avg_heart_rate := Num h),
                  has_sleep_data := Some True, has_heart_rate_data := Some True \<rparr>"

definition three_day_table :: dataframe where
  "three_day_table = [sleep_hr_day 738886 400 70, sleep_hr_day 738887 420 65,
                      sleep_hr_day 738888 440 60]"


text \<open>
  An entry without the key \<open>rating\<close>, and a parser that knows the one timestamp of the
  example.
\<close>

definition unrated_entry :: entry where
  "unrated_entry = \<lparr> e_date = Some ''2024-01-01'', e_time = Some ''20:00'',
                      e_substance = Some ''Alkohol'', e_dosage = None, e_rating = None,
                      e_cost = None, e_mood = None, e_setting = None, e_experience = None \<rparr>"

definition example_to_datetime :: "string \<Rightarrow> parsed" where
  "example_to_datetime s =
     (if s = ''2024-01-01 20:00'' then Timestamp (at_hour 738886 20) else ParseError)"

section \<open>The report guard\<close>

text \<open>
  Claim C1 says that \<open>generate_comprehensive_report\<close> returns a string for every state of
  the combined table and never raises.  With no table it returns the no-data message.
\<close>

lemma report_without_table:
  "combined_data self = None \<Longrightarrow>
     generate_comprehensive_report render self = Inr InsufficientDataMessage"
  by (simp add: generate_comprehensive_report_def)

text \<open>
  C1, on the code: once \<open>combined_data\<close> holds a table, empty or populated, the guard
  \<open>not self.data['combined_data']\<close> raises \<open>ValueError\<close>, so no report is returned.
  (The guards of \<open>perform_correlation_analysis\<close> and
  \<open>perform_machine_learning_analysis\<close> test \<open>is None\<close> instead and do not raise.)
\<close>

theorem report_raises_for_every_table:
  "combined_data self = Some df \<Longrightarrow> generate_comprehensive_report render self = Inl ValueError"
  by (simp add: generate_comprehensive_report_def)

section \<open>The percent difference of a substance effect\<close>

text \<open>
  Claim C7 says that swapping the partitions negates the percent difference.  The claim
  fails at the means 2 and 1: the differences are 100 and -50.
\<close>

theorem percent_diff_swap_counterexample:
  "(0::real) < 2 \<and> (0::real) < 1 \<and> percent_diff 2 1 = 100 \<and> percent_diff 1 2 = - 50
   \<and> percent_diff 1 2 \<noteq> - percent_diff 2 1"
  by (simp add: percent_diff_def)

text \<open>
  C7 as amended: for positive means, swapping the partitions reverses the sign of the
  percent difference; its value is the negated difference scaled by \<open>without / with\<close>.
\<close>

theorem percent_diff_swap_sign:
  assumes "0 < w" and "0 < wo"
  shows "sgn (percent_diff wo w) = - sgn (percent_diff w wo)
         \<and> percent_diff wo w = - percent_diff w wo * (wo / w)"
proof -
  have a: "percent_diff wo w = - percent_diff w wo * (wo / w)"
    using assms by (simp add: percent_diff_def field_simps)
  have "sgn (percent_diff wo w) = sgn (- percent_diff w wo) * sgn (wo / w)"
    unfolding a by (rule sgn_mult)
  also have "sgn (wo / w) = 1" using assms by simp
  finally have "sgn (percent_diff wo w) = - sgn (percent_diff w wo)"
    by (simp add: sgn_minus)
  then show ?thesis using a by simp
qed

theorem percent_diff_swap_sign_witness:
  "(0::real) < 3 \<and> (0::real) < 2 \<and> percent_diff 2 3 = - (100 / 3) \<and> percent_diff 3 2 = 50
   \<and> sgn (percent_diff 2 3) = - sgn (percent_diff 3 2)"
  using percent_diff_swap_sign [of 3 2] by (simp add: percent_diff_def)

section \<open>One row per date\<close>

subsection \<open>Grouping\<close>

lemma groupby_keys: "map fst (groupby key xs) = sort (remdups (map key xs))"
  by (simp add: groupby_def comp_def)

lemma distinct_groupby: "distinct (map fst (groupby key xs))"
  by (simp add: groupby_keys)

lemma set_groupby_keys: "fst ` set (groupby key xs) = key ` set xs"
proof -
  have "set (map fst (groupby key xs)) = key ` set xs" by (simp add: groupby_keys)
  then show ?thesis by simp
qed

lemma groupby_group:
  assumes "(d, grp) \<in> set (groupby key xs)"
  shows "grp = filter (\<lambda>x. key x = d) xs" and "grp \<noteq> []" and "d \<in> key ` set xs"
proof -
  from assms show g: "grp = filter (\<lambda>x. key x = d) xs" and d: "d \<in> key ` set xs"
    by (auto simp: groupby_def)
  from d obtain x where "x \<in> set xs" "key x = d" by auto
  then show "grp \<noteq> []" unfolding g by (auto simp: filter_empty_conv)
qed

subsection \<open>The three passes keep one record per date\<close>

lemma date_update_first:
  assumes "\<And>r. date (f r) = date r"
  shows "map date (update_first p f rs) = map date rs"
  using assms by (induction rs) auto

lemma date_set_heart_rate [simp]: "date (set_heart_rate grp r) = date r"
  by (simp add: set_heart_rate_def Let_def)

lemma date_set_consumption [simp]: "date (set_consumption grp r) = date r"
  by (simp add: set_consumption_def)

lemma date_set_evening [simp]: "date (set_evening grp r) = date r"
  by (simp add: set_evening_def Let_def)

lemma date_no_keys [simp]: "date (no_keys d) = d"
  by (simp add: no_keys_def)

lemma dates_heart_rate_step:
  "map date (heart_rate_step (d, grp) rs) =
     (if d \<in> set (map date rs) then map date rs else map date rs @ [d])"
  by (auto simp: heart_rate_step_def date_update_first)

lemma dates_consumption_step:
  "map date (consumption_step (d, grp) rs) =
     (if d \<in> set (map date rs) then map date rs else map date rs @ [d])"
  by (auto simp: consumption_step_def date_update_first)

lemma fold_step_dates:
  assumes step: "\<And>d grp rs. map date (step (d, grp) rs) =
                   (if d \<in> set (map date rs) then map date rs else map date rs @ [d])"
  shows "distinct (map date rs) \<Longrightarrow> distinct (map date (fold step gs rs))
         \<and> set (map date (fold step gs rs)) = set (map date rs) \<union> fst ` set gs"
proof (induction gs arbitrary: rs)
  case Nil
  then show ?case by simp
next
  case (Cons g gs)
  obtain d grp where g: "g = (d, grp)" by (cases g)
  have m: "map date (step g rs) =
             (if d \<in> set (map date rs) then map date rs else map date rs @ [d])"
    unfolding g by (rule step)
  have d1: "distinct (map date (step g rs))" using Cons.prems unfolding m by auto
  have s1: "set (map date (step g rs)) = insert d (set (map date rs))" unfolding m by auto
  have "distinct (map date (fold step gs (step g rs)))
        \<and> set (map date (fold step gs (step g rs))) = set (map date (step g rs)) \<union> fst ` set gs"
    by (rule Cons.IH [OF d1])
  then show ?case unfolding s1 by (auto simp: g)
qed

lemma date_sleep_record [simp]: "date (sleep_record (d, grp)) = d"
  by (simp add: sleep_record_def)

lemma dates_sleep_records: "map date (map sleep_record gs) = map fst gs"
  by (induction gs) auto

lemma combined_records_dates:
  "distinct (map date (combined_records self))
   \<and> set (map date (combined_records self)) = all_dates self"
proof -
  let ?g1 = "groupby (\<lambda>x. ts_date (s_datetime x)) (rows_of (sleep_data self))"
  let ?g2 = "groupby (\<lambda>x. ts_date (hr_datetime x)) (rows_of (heart_rate_data self))"
  let ?g3 = "groupby (\<lambda>x. ts_date (c_datetime x)) (rows_of (consumption_data self))"
  let ?r1 = "map sleep_record ?g1"
  let ?r2 = "fold heart_rate_step ?g2 ?r1"
  have a1: "distinct (map date ?r1)" by (simp only: dates_sleep_records distinct_groupby)
  have s1: "set (map date ?r1) = (\<lambda>x. ts_date (s_datetime x)) ` set (rows_of (sleep_data self))"
    by (simp only: dates_sleep_records set_map set_groupby_keys)
  have a2: "distinct (map date ?r2) \<and> set (map date ?r2) = set (map date ?r1) \<union> fst ` set ?g2"
    by (rule fold_step_dates [OF dates_heart_rate_step a1])
  then have a3: "distinct (map date (fold consumption_step ?g3 ?r2))
      \<and> set (map date (fold consumption_step ?g3 ?r2)) = set (map date ?r2) \<union> fst ` set ?g3"
    by (intro fold_step_dates [OF dates_consumption_step]) simp
  have c: "combined_records self = fold consumption_step ?g3 ?r2"
    by (simp add: combined_records_def Let_def)
  show ?thesis
    unfolding c all_dates_def using a3 a2 s1 by (simp only: set_groupby_keys)
qed

subsection \<open>Filling and sorting\<close>

lemma date_fillna_col: "map date (fillna_col c df) = map date df"
  by (simp add: fillna_col_def comp_def)

lemma date_fold_fillna: "map date (fold fillna_col cs df) = map date df"
  by (induction cs arbitrary: df) (simp_all add: date_fillna_col)

lemma fold_fillna_Nil: "(fold fillna_col cs df = []) = (df = [])"
  by (metis date_fold_fillna map_is_Nil_conv)

lemma map_insort_key: "map f (insort_key f x xs) = insort (f x) (map f xs)"
  by (induction xs) simp_all

lemma sort_key_map_date: "map date (sort_key date df) = sort (map date df)"
  by (induction df) (simp_all add: map_insort_key)

text \<open>
  Claim C4: whatever series are loaded, the table \<open>combine_data\<close> returns has no
  date twice, is sorted ascending by date, and its dates are exactly the calendar dates that
  appear in any of the three series; it returns no table exactly when there is no date.
\<close>

theorem combine_data_one_row_per_date:
  "(case fst (combine_data self) of
      None \<Rightarrow> all_dates self = {}
    | Some df \<Rightarrow>
        distinct (map date df) \<and> sorted (map date df) \<and> set (map date df) = all_dates self)"
proof (cases "combined_records self = []")
  case True
  then show ?thesis
    using combined_records_dates [of self] by (simp add: combine_data_def)
next
  case False
  let ?df = "sort_key date (fold fillna_col fill_cols (combined_records self))"
  have "map date ?df = sort (map date (combined_records self))"
    by (metis date_fold_fillna sort_key_map_date)
  then have "distinct (map date ?df) \<and> sorted (map date ?df) \<and> set (map date ?df) = all_dates self"
    using combined_records_dates [of self] by simp
  then show ?thesis using False by (simp add: combine_data_def Let_def)
qed

theorem combine_data_one_row_per_date_witness:
  "\<exists>df. fst (combine_data five_days) = Some df \<and> distinct (map date df) \<and> sorted (map date df)
        \<and> set (map date df) = {738886, 738887, 738888, 738889, 738890}"
proof -
  have a: "all_dates five_days = {738886, 738887, 738888, 738889, 738890}"
    by (simp add: all_dates_def five_days_def init_def hr_at_def at_hour_def)
  show ?thesis
    using combine_data_one_row_per_date [of five_days] unfolding a
    by (cases "fst (combine_data five_days)") simp_all
qed


section \<open>Anomaly days\<close>

lemma abs_gt_two_sqrt: "0 \<le> v \<Longrightarrow> (\<bar>d\<bar> > 2 * sqrt v) = (d\<^sup>2 > 4 * v)"
proof -
  assume v: "0 \<le> v"
  have a: "2 * sqrt v = sqrt (4 * v)" by (simp add: real_sqrt_mult)
  have b: "\<bar>d\<bar> = sqrt (d\<^sup>2)" by simp
  show ?thesis unfolding a b by (simp only: real_sqrt_less_iff)
qed

lemma dropna_absent: "\<forall>c \<in> set cs. c = Absent \<Longrightarrow> dropna cs = []"
  by (induction cs) auto

lemma col_values_no_column: "\<not> in_columns c df \<Longrightarrow> col_values c df = []"
  by (simp add: in_columns_def col_values_def dropna_absent)

lemma in_dropna: "Num x \<in> set cs \<Longrightarrow> x \<in> set (dropna cs)"
  by (induction cs rule: dropna.induct) auto

lemma in_col_values: "r \<in> set df \<Longrightarrow> num r c = Num x \<Longrightarrow> x \<in> set (col_values c df)"
  by (metis col_values_def imageI in_dropna list.set_map)

lemma sq_dev_nonneg: "0 \<le> sq_dev xs"
  by (auto simp: sq_dev_def Let_def intro!: sum_list_nonneg)

lemma sq_dev_zero:
  assumes "sq_dev xs = 0" and "x \<in> set xs"
  shows "x = sum_list xs / real (length xs)"
proof -
  let ?m = "sum_list xs / real (length xs)"
  have "sum_list (map (\<lambda>x. (x - ?m)\<^sup>2) xs) = 0" using assms(1) by (simp add: sq_dev_def Let_def)
  then have "\<forall>y \<in> set (map (\<lambda>x. (x - ?m)\<^sup>2) xs). y = 0"
    by (subst (asm) sum_list_nonneg_eq_0_iff) auto
  then have "(x - ?m)\<^sup>2 = 0" using assms(2) by simp
  then show ?thesis by simp
qed

lemma std_zero:
  assumes "std xs = Some s" and "\<not> s > 0" and "mean xs = Some m" and "x \<in> set xs"
  shows "x = m"
proof -
  have n: "\<not> length xs < 2" and s: "s = sqrt (sq_dev xs / real (length xs - 1))"
    using assms(1) by (auto simp: std_def split: if_splits)
  have "0 \<le> s" unfolding s using sq_dev_nonneg [of xs] by simp
  then have "s = 0" using assms(2) by simp
  then have "sq_dev xs = 0" using n unfolding s by simp
  then have "x = sum_list xs / real (length xs)" using assms(4) by (rule sq_dev_zero)
  then show ?thesis using assms(3) by (simp add: mean_def split: if_splits)
qed

lemma anomalies_eq: "anomalies df = filter (is_anomaly_day df) df"
proof (cases "in_columns avg_heart_rate df")
  case False
  then show ?thesis
    by (simp add: anomalies_def is_anomaly_day_def col_values_no_column mean_def split: cell.splits)
next
  case True
  show ?thesis
  proof (cases "mean (col_values avg_heart_rate df)")
    case None
    then show ?thesis using True by (simp add: anomalies_def is_anomaly_day_def split: cell.splits)
  next
    case (Some m)
    note m = this
    show ?thesis
    proof (cases "std (col_values avg_heart_rate df)")
      case None
      then show ?thesis using True m by (simp add: anomalies_def is_anomaly_day_def split: cell.splits)
    next
      case (Some s)
      show ?thesis
      proof (cases "s > 0")
        case True
        then show ?thesis using \<open>in_columns avg_heart_rate df\<close> m Some
          by (auto simp: anomalies_def is_anomaly_day_def intro!: filter_cong split: cell.splits)
      next
        case False
        have "\<not> is_anomaly_day df r" if "r \<in> set df" for r
        proof (cases "num r avg_heart_rate")
          case (Num x)
          then have "x = m" using std_zero [OF Some False m] in_col_values [OF that Num] by simp
          moreover have "0 \<le> s" using Some sq_dev_nonneg by (auto simp: std_def split: if_splits)
          ultimately show ?thesis using Num m Some by (simp add: is_anomaly_day_def)
        qed (simp_all add: is_anomaly_day_def)
        then have "filter (is_anomaly_day df) df = []" by (simp add: filter_empty_conv)
        then show ?thesis using False True m Some by (simp add: anomalies_def)
      qed
    qed
  qed
qed

lemma five_day_values: "col_values avg_heart_rate five_day_table = [60, 62, 61, 63, 150]"
  by (simp add: col_values_def five_day_table_def hr_day_def)

lemma five_day_in_columns: "in_columns avg_heart_rate five_day_table"
  by (simp add: in_columns_def five_day_table_def hr_day_def)

lemma five_day_mean: "mean [60, 62, 61, 63, 150] = Some (396 / 5)"
  by (simp add: mean_def)

lemma five_day_sq_dev: "sq_dev [60, 62, 61, 63, 150] = 31354 / 5"
  by (simp add: sq_dev_def Let_def power2_eq_square)

lemma five_day_std: "std [60, 62, 61, 63, 150] = Some (sqrt (15677 / 10))"
  by (simp add: std_def five_day_sq_dev)

lemma five_day_rule:
  "is_anomaly_day five_day_table r =
     (case num r avg_heart_rate of Num x \<Rightarrow> (x - 396 / 5)\<^sup>2 > 4 * (15677 / 10) | _ \<Rightarrow> False)"
  by (simp add: is_anomaly_day_def five_day_values five_day_mean five_day_std abs_gt_two_sqrt
      split: cell.splits)

lemma five_day_anomalies: "filter (is_anomaly_day five_day_table) five_day_table = []"
  unfolding five_day_rule by (simp add: five_day_table_def hr_day_def power2_eq_square)

section \<open>The recommendation rules\<close>

















section \<open>The evening subset\<close>

lemma map_fillna_col:
  assumes "\<And>r n. f (r\<lparr>num := n\<rparr>) = f r"
  shows "map f (fillna_col c df) = map f df"
  using assms by (simp add: fillna_col_def comp_def)

lemma map_fold_fillna:
  assumes "\<And>r n. f (r\<lparr>num := n\<rparr>) = f r"
  shows "map f (fold fillna_col cs df) = map f df"
  using assms by (induction cs arbitrary: df) (simp_all add: map_fillna_col)

lemma map_sort_key_singleton:
  assumes "length df = 1"
  shows "sort_key k df = df"
  using assms by (cases df) simp_all

lemma groupby_singleton: "groupby key [x] = [(key x, [x])]"
  by (simp add: groupby_def)

lemma evening_only_records:
  "combined_records evening_only =
     [(set_consumption [consumed_at 738886 20 ''Alkohol'' 3] (no_keys 738886))
        \<lparr>has_sleep_data := Some False, has_heart_rate_data := Some False\<rparr>]"
  by (simp add: combined_records_def evening_only_def init_def groupby_def consumption_step_def
      consumed_at_def at_hour_def)

lemma evening_with_sleep_records:
  "combined_records evening_with_sleep =
     [set_evening [consumed_at 738886 20 ''Alkohol'' 3]
        (set_consumption [consumed_at 738886 20 ''Alkohol'' 3]
           (sleep_record (738886, [sleep_at 738886 Total 420])))]"
  by (simp add: combined_records_def evening_with_sleep_def init_def groupby_def
      consumption_step_def consumed_at_def at_hour_def sleep_at_def sleep_record_def no_keys_def)

lemma combine_data_fields:
  assumes "\<And>r n. f (r\<lparr>num := n\<rparr>) = f r" and "combined_records self = [r0]"
  shows "\<exists>r. fst (combine_data self) = Some [r] \<and> f r = f r0"
proof -
  let ?df = "fold fillna_col fill_cols [r0]"
  have "map f ?df = [f r0]" using map_fold_fillna [of f fill_cols "[r0]"] assms(1) by simp
  then obtain r where r: "?df = [r]" "f r = f r0" by auto
  then show ?thesis using assms(2) by (simp add: combine_data_def Let_def)
qed

text \<open>
  Claim C6 says that the daily row records the evening subset whenever it is non-empty,
  also on dates without sleep or heart-rate data.  On the code: one entry at 20:00 on a
  day without health data.  Its evening subset is that entry, and the row for the day has
  neither \<open>evening_substances\<close> nor \<open>evening_consumption_count\<close>: the branch
  of \<open>combine_data\<close> that creates a new record does not compute them.
\<close>

theorem evening_subset_not_recorded_without_health_data:
  "evening_consumption (rows_of (consumption_data evening_only)) = [consumed_at 738886 20 ''Alkohol'' 3]
   \<and> (\<exists>r. fst (combine_data evening_only) = Some [r]
          \<and> (date r, substances_today r, consumption_count r, evening_substances r,
              evening_consumption_count r)
            = (738886, Some [''Alkohol''], Some 1, None, None))"
proof -
  have a: "evening_consumption (rows_of (consumption_data evening_only)) = [consumed_at 738886 20 ''Alkohol'' 3]"
    by (simp add: evening_only_def evening_consumption_def consumed_at_def at_hour_def)
  have b: "\<exists>r. fst (combine_data evening_only) = Some [r]
          \<and> (date r, substances_today r, consumption_count r, evening_substances r,
              evening_consumption_count r)
            = (738886, Some [''Alkohol''], Some 1, None, None)"
    using combine_data_fields [where f = "\<lambda>r. (date r, substances_today r, consumption_count r,
              evening_substances r, evening_consumption_count r)", OF _ evening_only_records]
    by (simp add: set_consumption_def no_keys_def consumed_at_def)
  show ?thesis using a b by simp
qed

text \<open>
  The same entry on a day that has a sleep sample: the branch that updates an existing
  record stores the evening subset.
\<close>

lemma evening_subset_recorded_with_sleep_data:
  "\<exists>r. fst (combine_data evening_with_sleep) = Some [r]
        \<and> (date r, substances_today r, consumption_count r, evening_substances r,
              evening_consumption_count r)
          = (738886, Some [''Alkohol''], Some 1, Some [''Alkohol''], Some 1)"
  using combine_data_fields [where f = "\<lambda>r. (date r, substances_today r, consumption_count r,
              evening_substances r, evening_consumption_count r)", OF _ evening_with_sleep_records]
  by (simp add: set_consumption_def set_evening_def evening_consumption_def sleep_record_def
      no_keys_def consumed_at_def at_hour_def)

theorem evening_subset_not_recorded_without_health_data_witness:
  "\<exists>r. fst (combine_data evening_only) = Some [r] \<and> evening_substances r = None"
  using evening_subset_not_recorded_without_health_data by auto

section \<open>Correlation records\<close>

subsection \<open>The Pearson coefficient lies in [-1, 1]\<close>

lemma squares_expand:
  fixes ds :: "(real \<times> real) list"
  shows "(\<Sum>(a, b)\<leftarrow>ds. (B * a - C * b)\<^sup>2) =
           B\<^sup>2 * (\<Sum>(a, b)\<leftarrow>ds. a * a) - 2 * B * C * (\<Sum>(a, b)\<leftarrow>ds. a * b)
           + C\<^sup>2 * (\<Sum>(a, b)\<leftarrow>ds. b * b)"
  by (induction ds) (auto simp: algebra_simps power2_eq_square)

lemma sum_squares_nonneg:
  fixes ds :: "(real \<times> real) list"
  shows "0 \<le> (\<Sum>(a, b)\<leftarrow>ds. a * a)" "0 \<le> (\<Sum>(a, b)\<leftarrow>ds. b * b)"
  by (induction ds) auto

lemma sum_squares_zero:
  fixes ds :: "(real \<times> real) list"
  assumes "(\<Sum>(a, b)\<leftarrow>ds. b * b) = 0"
  shows "(\<Sum>(a, b)\<leftarrow>ds. a * b) = 0"
  using assms
proof (induction ds)
  case Nil
  then show ?case by simp
next
  case (Cons d ds)
  obtain a b where d: "d = (a, b)" by (cases d)
  have "0 \<le> b * b" by simp
  moreover have "0 \<le> (\<Sum>(a, b)\<leftarrow>ds. b * b)" by (rule sum_squares_nonneg)
  moreover have "b * b + (\<Sum>(a, b)\<leftarrow>ds. b * b) = 0" using Cons.prems by (simp add: d)
  ultimately have "b * b = 0" "(\<Sum>(a, b)\<leftarrow>ds. b * b) = 0" by linarith+
  then show ?case using Cons.IH by (simp add: d)
qed

lemma cauchy_schwarz:
  fixes ds :: "(real \<times> real) list"
  shows "(\<Sum>(a, b)\<leftarrow>ds. a * b)\<^sup>2 \<le> (\<Sum>(a, b)\<leftarrow>ds. a * a) * (\<Sum>(a, b)\<leftarrow>ds. b * b)"
proof -
  let ?A = "\<Sum>(a, b)\<leftarrow>ds. a * a" and ?B = "\<Sum>(a, b)\<leftarrow>ds. b * b" and ?C = "\<Sum>(a, b)\<leftarrow>ds. a * b"
  show ?thesis
  proof (cases "?B = 0")
    case True
    then show ?thesis using sum_squares_zero [of ds] by simp
  next
    case False
    then have B: "0 < ?B" using sum_squares_nonneg(2) [of ds] by linarith
    have "0 \<le> (\<Sum>(a, b)\<leftarrow>ds. (?B * a - ?C * b)\<^sup>2)"
      by (rule sum_list_nonneg) auto
    then have "0 \<le> ?B\<^sup>2 * ?A - 2 * ?B * ?C * ?C + ?C\<^sup>2 * ?B"
      by (simp only: squares_expand)
    then have "0 \<le> ?B * (?A * ?B - ?C\<^sup>2)"
      by (simp add: algebra_simps power2_eq_square)
    then have "0 \<le> ?A * ?B - ?C\<^sup>2" using B by (simp add: zero_le_mult_iff)
    then show ?thesis by simp
  qed
qed

text \<open>The three sums of \<open>corr\<close>, over the deviations from the means.\<close>

lemma cov_as_sums:
  fixes ps :: "(real \<times> real) list"
  defines "mx \<equiv> sum_list (map fst ps) / real (length ps)"
      and "my \<equiv> sum_list (map snd ps) / real (length ps)"
  defines "ds \<equiv> map (\<lambda>(x, y). (x - mx, y - my)) ps"
  shows "cov (map fst ps) (map snd ps) = (\<Sum>(a, b)\<leftarrow>ds. a * b) / real (length ps - 1)"
    and "cov (map fst ps) (map fst ps) = (\<Sum>(a, b)\<leftarrow>ds. a * a) / real (length ps - 1)"
    and "cov (map snd ps) (map snd ps) = (\<Sum>(a, b)\<leftarrow>ds. b * b) / real (length ps - 1)"
proof -
  have z: "zip (map fst ps) (map snd ps) = ps" by (simp add: zip_map_fst_snd)
  have zx: "zip (map fst ps) (map fst ps) = map (\<lambda>p. (fst p, fst p)) ps" by (induction ps) auto
  have zy: "zip (map snd ps) (map snd ps) = map (\<lambda>p. (snd p, snd p)) ps" by (induction ps) auto
  show "cov (map fst ps) (map snd ps) = (\<Sum>(a, b)\<leftarrow>ds. a * b) / real (length ps - 1)"
    unfolding cov_def Let_def z ds_def mx_def my_def
    by (simp add: comp_def case_prod_unfold)
  show "cov (map fst ps) (map fst ps) = (\<Sum>(a, b)\<leftarrow>ds. a * a) / real (length ps - 1)"
    unfolding cov_def Let_def zx ds_def mx_def my_def
    by (simp add: comp_def case_prod_unfold)
  show "cov (map snd ps) (map snd ps) = (\<Sum>(a, b)\<leftarrow>ds. b * b) / real (length ps - 1)"
    unfolding cov_def Let_def zy ds_def mx_def my_def
    by (simp add: comp_def case_prod_unfold)
qed

lemma corr_bounds:
  assumes "corr ps = Some r"
  shows "- 1 \<le> r \<and> r \<le> 1"
proof -
  define mx where "mx = sum_list (map fst ps) / real (length ps)"
  define my where "my = sum_list (map snd ps) / real (length ps)"
  define ds where "ds = map (\<lambda>(x, y). (x - mx, y - my)) ps"
  define k where "k = real (length ps - 1)"
  define A where "A = (\<Sum>(a, b)\<leftarrow>ds. a * a)"
  define B where "B = (\<Sum>(a, b)\<leftarrow>ds. b * b)"
  define C where "C = (\<Sum>(a, b)\<leftarrow>ds. a * b)"
  note sums = cov_as_sums [of ps, folded mx_def my_def, folded ds_def, folded k_def A_def B_def C_def]
  have sx: "sqrt (A / k) \<noteq> 0" and sy: "sqrt (B / k) \<noteq> 0" and r: "r = C / k / sqrt (A / k) / sqrt (B / k)"
    using assms unfolding corr_def Let_def sums by (auto split: if_splits)
  have k0: "0 \<le> k" by (simp add: k_def)
  have "k \<noteq> 0" using sx by auto
  then have k: "0 < k" using k0 by simp
  have A0: "0 \<le> A" and B0: "0 \<le> B" unfolding A_def B_def by (rule sum_squares_nonneg)+
  have A: "0 < A" using sx A0 by (cases "A = 0") auto
  have B: "0 < B" using sy B0 by (cases "B = 0") auto
  have cs: "C\<^sup>2 \<le> A * B" unfolding A_def B_def C_def by (rule cauchy_schwarz)
  have "r = C / (sqrt A * sqrt B)"
    unfolding r using k by (simp add: real_sqrt_divide field_simps)
  also have "\<dots> = C / sqrt (A * B)" by (simp add: real_sqrt_mult)
  finally have r': "r = C / sqrt (A * B)" .
  have "\<bar>C\<bar> = sqrt (C\<^sup>2)" by simp
  also have "\<dots> \<le> sqrt (A * B)" using cs by (simp only: real_sqrt_le_iff)
  finally have "\<bar>C\<bar> \<le> sqrt (A * B)" .
  moreover have "0 < sqrt (A * B)" using A B by simp
  ultimately have "\<bar>r\<bar> \<le> 1" unfolding r' by (simp add: field_simps)
  then show ?thesis by linarith
qed

subsection \<open>The pairs of the double loop\<close>

lemma in_pairs_set: "(a, b) \<in> set (pairs xs) \<Longrightarrow> a \<in> set xs \<and> b \<in> set xs"
  by (induction xs) auto

lemma pairs_no_swap:
  "distinct xs \<Longrightarrow> (a, b) \<in> set (pairs xs) \<Longrightarrow> a \<noteq> b \<and> (b, a) \<notin> set (pairs xs)"
proof (induction xs)
  case Nil
  then show ?case by simp
next
  case (Cons x xs)
  have x: "x \<notin> set xs" and d: "distinct xs" using Cons.prems(1) by simp_all
  show ?case
  proof (cases "(a, b) \<in> set (pairs xs)")
    case True
    have ab: "a \<in> set xs" "b \<in> set xs" using in_pairs_set [OF True] by simp_all
    have "a \<noteq> b \<and> (b, a) \<notin> set (pairs xs)" using Cons.IH [OF d True] .
    then show ?thesis using ab x by auto
  next
    case False
    then have a: "a = x" and b: "b \<in> set xs" using Cons.prems(2) by auto
    have "(b, a) \<notin> set (pairs xs)" using in_pairs_set [of b a xs] a x by auto
    then show ?thesis using a b x by auto
  qed
qed

lemma distinct_numeric_cols: "distinct (numeric_cols df)"
  by (simp add: numeric_cols_def candidate_cols_def)

subsection \<open>The dict of correlations\<close>

lemma fold_store_correlation:
  "fold (store_correlation df) ps m p =
     (if p \<in> set ps
      then (case correlation_entry df (fst p) (snd p) of None \<Rightarrow> m p | Some e \<Rightarrow> Some e)
      else m p)"
proof (induction ps arbitrary: m)
  case Nil
  then show ?case by simp
next
  case (Cons q ps)
  have "fold (store_correlation df) (q # ps) m p
          = fold (store_correlation df) ps (store_correlation df q m) p"
    by simp
  also have "\<dots> = (if p \<in> set ps
      then (case correlation_entry df (fst p) (snd p) of
              None \<Rightarrow> store_correlation df q m p | Some e \<Rightarrow> Some e)
      else store_correlation df q m p)"
    by (rule Cons.IH)
  also have "\<dots> = (if p \<in> set (q # ps)
      then (case correlation_entry df (fst p) (snd p) of None \<Rightarrow> m p | Some e \<Rightarrow> Some e)
      else m p)"
    by (auto simp: store_correlation_def split: option.splits)
  finally show ?case .
qed

lemma compute_correlations_lookup:
  "compute_correlations df cols (a, b) =
     (if (a, b) \<in> set (pairs cols) then correlation_entry df a b else None)"
  by (simp add: compute_correlations_def fold_store_correlation split: option.splits)

lemma correlation_entry_Some:
  "correlation_entry df a b = Some e \<longleftrightarrow>
     (\<exists>r. 3 \<le> length (valid_data df a b) \<and> corr (valid_data df a b) = Some r \<and> \<bar>r\<bar> > 0.3
          \<and> e = \<lparr> correlation = r, sample_n = length (valid_data df a b),
                   corr_interpretation = interpret_correlation a b r \<rparr>)"
  by (auto simp: correlation_entry_def Let_def split: option.splits)

lemma correlation_analysis_success:
  assumes "combined_data self = Some combined" and "combined \<noteq> []"
  shows "\<exists>res. fst (perform_correlation_analysis self) = Success res"
  using assms by (simp add: perform_correlation_analysis_def Let_def)

lemma correlation_analysis_result:
  assumes "combined_data self = Some combined" and "combined \<noteq> []"
    and "fst (perform_correlation_analysis self) = Success res"
  shows "numeric_columns res = numeric_cols (add_hrv_proxy (add_sleep_efficiency combined))"
    and "correlations res =
           compute_correlations (add_hrv_proxy (add_sleep_efficiency combined))
             (numeric_cols (add_hrv_proxy (add_sleep_efficiency combined)))"
  using assms by (auto simp: perform_correlation_analysis_def Let_def)

text \<open>
  Claim C2: every record of \<open>perform_correlation_analysis\<close> carries the Pearson
  coefficient of the rows where both metrics are present; it lies in [-1, 1], rests on at
  least 3 such rows and exceeds 0.3 in absolute value.  A pair with fewer than 3 paired
  rows, or whose coefficient is NaN, has no record, and no pair of metrics has a record in
  both orders.
\<close>

theorem correlation_records_are_material:
  assumes "combined_data self = Some combined" and "combined \<noteq> []"
  defines "df \<equiv> add_hrv_proxy (add_sleep_efficiency combined)"
  shows "\<exists>res. fst (perform_correlation_analysis self) = Success res
           \<and> (\<forall>a b e. correlations res (a, b) = Some e \<longrightarrow>
                 - 1 \<le> correlation e \<and> correlation e \<le> 1 \<and> 3 \<le> sample_n e
                 \<and> \<bar>correlation e\<bar> > 0.3
                 \<and> sample_n e = length (valid_data df a b)
                 \<and> corr (valid_data df a b) = Some (correlation e)
                 \<and> a \<noteq> b \<and> correlations res (b, a) = None)
           \<and> (\<forall>a b. length (valid_data df a b) < 3 \<or> corr (valid_data df a b) = None
                 \<longrightarrow> correlations res (a, b) = None)"
proof -
  obtain res where res: "fst (perform_correlation_analysis self) = Success res"
    using correlation_analysis_success [OF assms(1,2)] by blast
  have c: "correlations res = compute_correlations df (numeric_cols df)"
    unfolding df_def by (rule correlation_analysis_result(2) [OF assms(1,2) res])
  have 1: "- 1 \<le> correlation e \<and> correlation e \<le> 1 \<and> 3 \<le> sample_n e
                 \<and> \<bar>correlation e\<bar> > 0.3
                 \<and> sample_n e = length (valid_data df a b)
                 \<and> corr (valid_data df a b) = Some (correlation e)
                 \<and> a \<noteq> b \<and> correlations res (b, a) = None"
    if "correlations res (a, b) = Some e" for a b e
  proof -
    have p: "(a, b) \<in> set (pairs (numeric_cols df))" and e: "correlation_entry df a b = Some e"
      using that unfolding c compute_correlations_lookup by (auto split: if_splits)
    from e obtain r where r: "3 \<le> length (valid_data df a b)" "corr (valid_data df a b) = Some r"
      "\<bar>r\<bar> > 0.3" "correlation e = r" "sample_n e = length (valid_data df a b)"
      unfolding correlation_entry_Some by auto
    have s: "a \<noteq> b \<and> (b, a) \<notin> set (pairs (numeric_cols df))"
      using pairs_no_swap [OF distinct_numeric_cols p] .
    then have "correlations res (b, a) = None" unfolding c compute_correlations_lookup by simp
    then show ?thesis using r s corr_bounds [OF r(2)] by simp
  qed
  have 2: "correlations res (a, b) = None"
    if "length (valid_data df a b) < 3 \<or> corr (valid_data df a b) = None" for a b
  proof -
    have "correlation_entry df a b = None"
      using that by (auto simp: correlation_entry_def Let_def)
    then show ?thesis unfolding c compute_correlations_lookup by simp
  qed
  show ?thesis using res 1 2 by blast
qed

lemma three_day_derived: "add_hrv_proxy (add_sleep_efficiency three_day_table) = three_day_table"
  by (simp add: add_hrv_proxy_def add_sleep_efficiency_def in_columns_def three_day_table_def
      sleep_hr_day_def)

lemma three_day_numeric_cols: "numeric_cols three_day_table = [total_sleep_min, avg_heart_rate]"
  by (simp add: numeric_cols_def candidate_cols_def eligible_def in_columns_def
      three_day_table_def sleep_hr_day_def)

lemma three_day_valid:
  "valid_data three_day_table total_sleep_min avg_heart_rate = [(400, 70), (420, 65), (440, 60)]"
  by (simp add: valid_data_def three_day_table_def sleep_hr_day_def List.map_filter_simps)

lemma sqrt_400: "sqrt 400 = 20"
  by (rule real_sqrt_unique) simp_all

lemma sqrt_25: "sqrt 25 = 5"
  by (rule real_sqrt_unique) simp_all

lemma three_day_corr: "corr [(400, 70), (420, 65), (440, 60)] = Some (- 1)"
  by (simp add: corr_def cov_def Let_def sqrt_400 sqrt_25)

lemma three_day_entry:
  "correlation_entry three_day_table total_sleep_min avg_heart_rate =
     Some \<lparr> correlation = - 1, sample_n = 3, corr_interpretation = MoreSleepLowerHeartRate \<rparr>"
  by (simp add: correlation_entry_def three_day_valid three_day_corr interpret_correlation_def)

text \<open>
  The theorem at the three-day table: one record, for total sleep against heart rate, with
  coefficient -1 over 3 rows.
\<close>

theorem correlation_records_are_material_witness:
  "combined_data (init\<lparr>combined_data := Some three_day_table\<rparr>) = Some three_day_table
   \<and> three_day_table \<noteq> []
   \<and> (\<exists>res e. fst (perform_correlation_analysis (init\<lparr>combined_data := Some three_day_table\<rparr>))
                 = Success res
        \<and> correlations res (total_sleep_min, avg_heart_rate) = Some e
        \<and> correlation e = - 1 \<and> - 1 \<le> correlation e \<and> correlation e \<le> 1 \<and> sample_n e = 3
        \<and> correlations res (avg_heart_rate, total_sleep_min) = None)"
proof -
  let ?s = "init\<lparr>combined_data := Some three_day_table\<rparr>"
  have h1: "combined_data ?s = Some three_day_table" by simp
  have h2: "three_day_table \<noteq> []" by (simp add: three_day_table_def)
  obtain res where res: "fst (perform_correlation_analysis ?s) = Success res"
    and all: "\<forall>a b e. correlations res (a, b) = Some e \<longrightarrow>
                 - 1 \<le> correlation e \<and> correlation e \<le> 1 \<and> 3 \<le> sample_n e
                 \<and> \<bar>correlation e\<bar> > 0.3
                 \<and> sample_n e = length (valid_data three_day_table a b)
                 \<and> corr (valid_data three_day_table a b) = Some (correlation e)
                 \<and> a \<noteq> b \<and> correlations res (b, a) = None"
    using correlation_records_are_material [OF h1 h2] unfolding three_day_derived by blast
  have "correlations res = compute_correlations three_day_table [total_sleep_min, avg_heart_rate]"
    using correlation_analysis_result(2) [OF h1 h2 res]
    by (simp only: three_day_derived three_day_numeric_cols)
  then have e: "correlations res (total_sleep_min, avg_heart_rate) =
      Some \<lparr> correlation = - 1, sample_n = 3, corr_interpretation = MoreSleepLowerHeartRate \<rparr>"
    by (simp add: compute_correlations_lookup three_day_entry)
  show ?thesis using h1 h2 res e all [rule_format, OF e] by simp
qed

section \<open>Eligible metrics\<close>

subsection \<open>Distinct values\<close>




lemma set_dropna: "set (dropna cs) = {x. Num x \<in> set cs}"
  by (induction cs rule: dropna.induct) auto

lemma in_col_values_iff: "x \<in> set (col_values c df) \<longleftrightarrow> (\<exists>r \<in> set df. num r c = Num x)"
  by (simp add: col_values_def set_dropna image_iff) metis







subsection \<open>What filling does to a table\<close>

lemma fill0_fill0 [simp]: "fill0 (fill0 x) = fill0 x"
  by (cases x) simp_all

lemma fill0_not_Absent [simp]: "fill0 x \<noteq> Absent"
  by (cases x) simp_all

lemma notna_fill0 [simp]: "notna (fill0 x)"
  by (cases x) simp_all

lemma in_columns_fillna_col: "in_columns c' (fillna_col c df) = in_columns c' df"
proof (cases "in_columns c df")
  case False
  then show ?thesis by (simp add: fillna_col_def)
next
  case True
  then have ne: "df \<noteq> []" by (auto simp: in_columns_def)
  show ?thesis
  proof (cases "c' = c")
    case True
    have "in_columns c (fillna_col c df)"
      using \<open>in_columns c df\<close> ne by (cases df) (simp_all add: fillna_col_def in_columns_def)
    then show ?thesis using True \<open>in_columns c df\<close> by simp
  next
    case False
    then show ?thesis using True by (simp add: fillna_col_def in_columns_def)
  qed
qed

lemma filled_Nil: "filled [] df r = r"
  by (simp add: filled_def)

lemma filled_Cons_present:
  assumes "in_columns c df"
  shows "filled cs df (r\<lparr>num := (num r)(c := fill0 (num r c))\<rparr>) = filled (c # cs) df r"
  by (rule row.equality) (use assms in \<open>auto simp: filled_def fun_eq_iff\<close>)

lemma filled_Cons_absent:
  assumes "\<not> in_columns c df"
  shows "filled cs df r = filled (c # cs) df r"
  by (rule row.equality) (use assms in \<open>auto simp: filled_def fun_eq_iff\<close>)

lemma filled_cong: "(\<And>c. in_columns c df = in_columns c df') \<Longrightarrow> filled cs df r = filled cs df' r"
  by (simp add: filled_def)

lemma fold_fillna: "fold fillna_col cs df = map (filled cs df) df"
proof (induction cs arbitrary: df)
  case Nil
  then show ?case by (simp add: filled_Nil)
next
  case (Cons c cs)
  have "fold fillna_col (c # cs) df = map (filled cs (fillna_col c df)) (fillna_col c df)"
    by (simp add: Cons.IH)
  also have "\<dots> = map (filled cs df) (fillna_col c df)"
    by (rule map_cong [OF refl]) (rule filled_cong, rule in_columns_fillna_col)
  also have "\<dots> = map (filled (c # cs) df) df"
  proof (cases "in_columns c df")
    case True
    then show ?thesis by (simp add: fillna_col_def filled_Cons_present comp_def)
  next
    case False
    then show ?thesis by (simp add: fillna_col_def filled_Cons_absent [symmetric])
  qed
  finally show ?case .
qed

lemma combine_data_table:
  assumes "fst (combine_data self) = Some df"
  shows "set df = filled fill_cols (combined_records self) ` set (combined_records self)"
    and "combined_records self \<noteq> []"
  using assms by (auto simp: combine_data_def Let_def fold_fillna split: if_splits)

lemma date_filled [simp]: "date (filled cs df r) = date r"
  by (simp add: filled_def)

lemma num_filled:
  "num (filled cs df r) c = (if c \<in> set cs \<and> in_columns c df then fill0 (num r c) else num r c)"
  by (simp add: filled_def)

subsection \<open>The consumption pass, row by row\<close>

lemma in_update_first:
  "r \<in> set (update_first p f rs) \<Longrightarrow> r \<in> set rs \<or> (\<exists>r0 \<in> set rs. p r0 \<and> r = f r0)"
  by (induction rs) (auto split: if_splits)

lemma in_update_first_distinct:
  assumes "distinct (map date rs)" and "\<And>r. date (f r) = date r"
    and "r \<in> set (update_first (\<lambda>r. date r = d) f rs)" and "date r = d"
  shows "\<exists>r0. r = f r0"
  using assms(1,3)
proof (induction rs)
  case Nil
  then show ?case by simp
next
  case (Cons x rs)
  show ?case
  proof (cases "date x = d")
    case True
    then have "r = f x \<or> r \<in> set rs" using Cons.prems(2) by simp
    moreover have "r \<notin> set rs" using Cons.prems(1) True assms(4) by (auto simp: image_iff)
    ultimately show ?thesis by blast
  next
    case False
    then have "r \<in> set (update_first (\<lambda>r. date r = d) f rs)"
      using Cons.prems(2) assms(4) by auto
    then show ?thesis using Cons.IH Cons.prems(1) by simp
  qed
qed

lemma consumption_step_other:
  assumes "r \<in> set (consumption_step (d, grp) rs)" and "date r \<noteq> d"
  shows "r \<in> set rs"
proof (cases "\<exists>r \<in> set rs. date r = d")
  case True
  then have "r \<in> set (update_first (\<lambda>r. date r = d)
                        (\<lambda>r. set_evening grp (set_consumption grp r)) rs)"
    using assms(1) by (simp add: consumption_step_def)
  then show ?thesis using in_update_first [of r] assms(2) by fastforce
next
  case False
  then show ?thesis using assms by (auto simp: consumption_step_def)
qed

lemma rating_set_consumption:
  "num (set_evening grp (set_consumption grp r)) avg_consumption_rating
     = to_cell (mean (map c_rating grp))"
  "num (set_consumption grp r) avg_consumption_rating = to_cell (mean (map c_rating grp))"
  by (simp_all add: set_evening_def set_consumption_def Let_def)

lemma consumption_step_same:
  assumes "distinct (map date rs)" and "r \<in> set (consumption_step (d, grp) rs)" and "date r = d"
  shows "num r avg_consumption_rating = to_cell (mean (map c_rating grp))"
proof (cases "\<exists>r \<in> set rs. date r = d")
  case True
  then have "r \<in> set (update_first (\<lambda>r. date r = d)
                        (\<lambda>r. set_evening grp (set_consumption grp r)) rs)"
    using assms(2) by (simp add: consumption_step_def)
  then obtain r0 where "r = set_evening grp (set_consumption grp r0)"
    using in_update_first_distinct [OF assms(1) _ _ assms(3)] by fastforce
  then show ?thesis by (simp add: rating_set_consumption)
next
  case False
  then have "r = (set_consumption grp (no_keys d))
                   \<lparr>has_sleep_data := Some False, has_heart_rate_data := Some False\<rparr>"
    using assms(2,3) by (auto simp: consumption_step_def)
  then show ?thesis by (simp add: rating_set_consumption)
qed

lemma fold_consumption_other:
  "d \<notin> fst ` set gs \<Longrightarrow> r \<in> set (fold consumption_step gs rs) \<Longrightarrow> date r = d \<Longrightarrow> r \<in> set rs"
proof (induction gs arbitrary: rs)
  case Nil
  then show ?case by simp
next
  case (Cons g gs)
  obtain d' grp where g: "g = (d', grp)" by (cases g)
  have "r \<in> set (consumption_step g rs)" using Cons by simp
  then show ?case using consumption_step_other [of r d' grp rs] Cons.prems g by auto
qed

lemma distinct_consumption_step:
  "distinct (map date rs) \<Longrightarrow> distinct (map date (consumption_step g rs))"
  by (cases g) (simp add: dates_consumption_step)

lemma fold_consumption_rating:
  "distinct (map fst gs) \<Longrightarrow> distinct (map date rs) \<Longrightarrow> (d, grp) \<in> set gs
   \<Longrightarrow> r \<in> set (fold consumption_step gs rs) \<Longrightarrow> date r = d
   \<Longrightarrow> num r avg_consumption_rating = to_cell (mean (map c_rating grp))"
proof (induction gs arbitrary: rs)
  case Nil
  then show ?case by simp
next
  case (Cons g gs)
  show ?case
  proof (cases "g = (d, grp)")
    case True
    have "d \<notin> fst ` set gs" using Cons.prems(1) True by force
    then have "r \<in> set (consumption_step (d, grp) rs)"
      using fold_consumption_other [of d gs r] Cons.prems(4,5) True by simp
    then show ?thesis using consumption_step_same Cons.prems(2,5) by blast
  next
    case False
    then have "(d, grp) \<in> set gs" using Cons.prems(3) by simp
    moreover have "distinct (map fst gs)" using Cons.prems(1) by simp
    moreover have "r \<in> set (fold consumption_step gs (consumption_step g rs))"
      using Cons.prems(4) by simp
    ultimately show ?thesis
      using Cons.IH distinct_consumption_step [OF Cons.prems(2)] Cons.prems(5) by blast
  qed
qed

lemma combined_records_rating:
  assumes "r \<in> set (combined_records self)"
    and "date r \<in> (\<lambda>x. ts_date (c_datetime x)) ` set (rows_of (consumption_data self))"
  shows "num r avg_consumption_rating =
           to_cell (mean (map c_rating
              (filter (\<lambda>x. ts_date (c_datetime x) = date r) (rows_of (consumption_data self)))))"
proof -
  let ?g1 = "groupby (\<lambda>x. ts_date (s_datetime x)) (rows_of (sleep_data self))"
  let ?g2 = "groupby (\<lambda>x. ts_date (hr_datetime x)) (rows_of (heart_rate_data self))"
  let ?key = "\<lambda>x. ts_date (c_datetime x)"
  let ?g3 = "groupby ?key (rows_of (consumption_data self))"
  let ?r2 = "fold heart_rate_step ?g2 (map sleep_record ?g1)"
  let ?grp = "filter (\<lambda>x. ?key x = date r) (rows_of (consumption_data self))"
  have d2: "distinct (map date ?r2)"
    using fold_step_dates [OF dates_heart_rate_step, of "map sleep_record ?g1" ?g2]
    by (simp only: dates_sleep_records distinct_groupby)
  have "date r \<in> set (sort (remdups (map ?key (rows_of (consumption_data self)))))"
    using assms(2) by simp
  then have g: "(date r, ?grp) \<in> set ?g3" unfolding groupby_def by force
  have r: "r \<in> set (fold consumption_step ?g3 ?r2)"
    using assms(1) by (simp add: combined_records_def Let_def)
  show ?thesis
    by (rule fold_consumption_rating [OF distinct_groupby d2 g r refl])
qed

subsection \<open>A missing rating\<close>

lemma load_entry_unrated:
  assumes "e_rating e = None"
  shows "load_entry td e = load_entry td (e\<lparr>e_rating := Some (Number 0)\<rparr>)"
    and "load_entry td e = Some x \<Longrightarrow> c_rating x = 0"
  using assms
  by (auto simp: load_entry_def Let_def split: parsed.splits option.splits)

lemma set_map_filter: "set (List.map_filter f xs) = {y. \<exists>x \<in> set xs. f x = Some y}"
  by (induction xs) (auto simp: List.map_filter_simps split: option.splits)

lemma loaded_observations:
  assumes "load_consumption_data td entries self0 = (Some obs, self)"
  shows "consumption_data self = Some obs"
    and "set obs = {x. \<exists>e \<in> set entries. load_entry td e = Some x}"
  using assms
  by (auto simp: load_consumption_data_def Let_def set_map_filter split: if_splits)

lemma mean_zero: "xs \<noteq> [] \<Longrightarrow> \<forall>x \<in> set xs. x = 0 \<Longrightarrow> mean xs = Some 0"
proof -
  assume a: "xs \<noteq> []" and b: "\<forall>x \<in> set xs. x = 0"
  have "sum_list xs = 0" using b by (induction xs) auto
  then show ?thesis using a by (simp add: mean_def)
qed

lemma in_valid_data:
  "r \<in> set df \<Longrightarrow> num r a = Num x \<Longrightarrow> num r b = Num y \<Longrightarrow> (x, y) \<in> set (valid_data df a b)"
  by (force simp: valid_data_def set_map_filter)

text \<open>
  Claim C10: an entry without the key \<open>rating\<close> is loaded exactly as an entry with
  rating 0 (it is not skipped for that, and its rating is 0); a day all of whose loaded
  entries lack the rating has the mean consumption rating 0 in the daily table, a number
  like any other: it is among the values of the column (those that means are taken over)
  and it is paired with every other number of its row in the data of a correlation.
\<close>

theorem missing_rating_is_zero:
  assumes load: "load_consumption_data td entries self0 = (Some obs, self)"
    and table: "fst (combine_data self) = Some df" and row: "r \<in> set df"
    and some: "\<exists>e \<in> set entries. \<exists>x. load_entry td e = Some x \<and> ts_date (c_datetime x) = date r"
    and unrated: "\<forall>e \<in> set entries. \<forall>x. load_entry td e = Some x \<and> ts_date (c_datetime x) = date r
                    \<longrightarrow> e_rating e = None"
  shows "(\<forall>e \<in> set entries. e_rating e = None \<longrightarrow>
            load_entry td e = load_entry td (e\<lparr>e_rating := Some (Number 0)\<rparr>)
            \<and> (\<forall>x. load_entry td e = Some x \<longrightarrow> x \<in> set obs \<and> c_rating x = 0))
       \<and> num r avg_consumption_rating = Num 0
       \<and> 0 \<in> set (col_values avg_consumption_rating df)
       \<and> (\<forall>c y. num r c = Num y \<longrightarrow> (0, y) \<in> set (valid_data df avg_consumption_rating c))"
proof -
  note obs = loaded_observations [OF load]
  have a: "load_entry td e = load_entry td (e\<lparr>e_rating := Some (Number 0)\<rparr>)
            \<and> (\<forall>x. load_entry td e = Some x \<longrightarrow> x \<in> set obs \<and> c_rating x = 0)"
    if "e \<in> set entries" "e_rating e = None" for e
    using that load_entry_unrated [of e td] obs(2) by blast
  let ?key = "\<lambda>x. ts_date (c_datetime x)"
  let ?grp = "filter (\<lambda>x. ?key x = date r) (rows_of (consumption_data self))"
  have rows: "rows_of (consumption_data self) = obs" by (simp add: obs(1))
  obtain x0 where x0: "x0 \<in> set obs" "?key x0 = date r" using some obs(2) by blast
  then have ne: "?grp \<noteq> []" unfolding rows by (auto simp: filter_empty_conv)
  have zero: "\<forall>v \<in> set (map c_rating ?grp). v = 0"
  proof
    fix v assume "v \<in> set (map c_rating ?grp)"
    then obtain x where x: "x \<in> set obs" "?key x = date r" "v = c_rating x"
      unfolding rows by auto
    then obtain e where e: "e \<in> set entries" "load_entry td e = Some x" using obs(2) by blast
    then have "e_rating e = None" using unrated x(2) by blast
    then show "v = 0" using load_entry_unrated(2) [OF _ e(2)] x(3) by simp
  qed
  have m: "mean (map c_rating ?grp) = Some 0" using mean_zero [OF _ zero] ne by simp
  obtain r0 where r0: "r0 \<in> set (combined_records self)"
    "r = filled fill_cols (combined_records self) r0"
    using combine_data_table(1) [OF table] row by blast
  have d: "date r0 = date r" by (simp add: r0(2))
  have "date r0 \<in> ?key ` set (rows_of (consumption_data self))"
    unfolding rows d using x0 by force
  then have "num r0 avg_consumption_rating = Num 0"
    using combined_records_rating [OF r0(1)] m unfolding d by simp
  then have b: "num r avg_consumption_rating = Num 0" by (simp add: r0(2) num_filled)
  have c: "0 \<in> set (col_values avg_consumption_rating df)"
    using b row in_col_values_iff by blast
  have e: "(0, y) \<in> set (valid_data df avg_consumption_rating c)" if "num r c = Num y" for c y
    using in_valid_data [OF row b that] .
  show ?thesis using a b c e by blast
qed

lemma unrated_loaded:
  "load_entry example_to_datetime unrated_entry = Some (consumed_at 738886 20 ''Alkohol'' 0
       \<lparr>c_date := ''2024-01-01'', c_time := ''20:00''\<rparr>)"
  by (simp add: load_entry_def unrated_entry_def example_to_datetime_def parse_timestamp_def
      consumed_at_def)

lemma unrated_state:
  "load_consumption_data example_to_datetime [unrated_entry] init =
     (Some [consumed_at 738886 20 ''Alkohol'' 0 \<lparr>c_date := ''2024-01-01'', c_time := ''20:00''\<rparr>],
      init\<lparr>consumption_data :=
        Some [consumed_at 738886 20 ''Alkohol'' 0 \<lparr>c_date := ''2024-01-01'', c_time := ''20:00''\<rparr>]\<rparr>)"
  by (simp add: load_consumption_data_def List.map_filter_simps unrated_loaded Let_def)

lemma unrated_records:
  "combined_records (init\<lparr>consumption_data :=
        Some [consumed_at 738886 20 ''Alkohol'' 0 \<lparr>c_date := ''2024-01-01'', c_time := ''20:00''\<rparr>]\<rparr>)
   = [(set_consumption
         [consumed_at 738886 20 ''Alkohol'' 0 \<lparr>c_date := ''2024-01-01'', c_time := ''20:00''\<rparr>]
         (no_keys 738886))
        \<lparr>has_sleep_data := Some False, has_heart_rate_data := Some False\<rparr>]"
  by (simp add: combined_records_def init_def groupby_def consumption_step_def
      consumed_at_def at_hour_def)

text \<open>
  The theorem at one entry without rating, loaded into a fresh analyzer and combined.
\<close>

theorem missing_rating_is_zero_witness:
  "\<exists>obs self r. load_consumption_data example_to_datetime [unrated_entry] init = (Some obs, self)
      \<and> fst (combine_data self) = Some [r] \<and> date r = 738886 \<and> e_rating unrated_entry = None
      \<and> num r avg_consumption_rating = Num 0
      \<and> 0 \<in> set (col_values avg_consumption_rating [r])"
proof -
  let ?x = "consumed_at 738886 20 ''Alkohol'' 0 \<lparr>c_date := ''2024-01-01'', c_time := ''20:00''\<rparr>"
  let ?self = "init\<lparr>consumption_data := Some [?x]\<rparr>"
  obtain r where r: "fst (combine_data ?self) = Some [r]" "date r = 738886"
    using combine_data_fields [where f = date, OF _ unrated_records] by auto
  have x: "ts_date (c_datetime ?x) = 738886" by (simp add: consumed_at_def at_hour_def)
  have u: "e_rating unrated_entry = None" by (simp add: unrated_entry_def)
  have "num r avg_consumption_rating = Num 0 \<and> 0 \<in> set (col_values avg_consumption_rating [r])"
    using missing_rating_is_zero [OF unrated_state r(1), of r] unrated_loaded x r(2) u by simp
  then show ?thesis using unrated_state r u by blast
qed

subsection \<open>Tables of the aggregator have no missing entry in a column\<close>



















lemma length_derived [simp]: "length (add_hrv_proxy (add_sleep_efficiency df)) = length df"
  by (simp add: add_hrv_proxy_def add_sleep_efficiency_def)


section \<open>Running the pipeline again\<close>

text \<open>What each call reads and writes.\<close>

lemma load_consumption_fst:
  "fst (load_consumption_data td es s) = fst (load_consumption_data td es s')"
  by (simp add: load_consumption_data_def Let_def)

lemma load_consumption_snd:
  "snd (load_consumption_data td es s) =
     (case fst (load_consumption_data td es s) of
        None \<Rightarrow> s | Some df \<Rightarrow> s\<lparr>consumption_data := Some df\<rparr>)"
  by (simp add: load_consumption_data_def Let_def)

lemma load_consumption_fixed:
  assumes "consumption_data t = consumption_data (snd (load_consumption_data td es s))"
  shows "snd (load_consumption_data td es t) = t"
proof (cases "fst (load_consumption_data td es s)")
  case None
  then have "fst (load_consumption_data td es t) = None"
    using load_consumption_fst [of td es t s] by simp
  then show ?thesis by (simp add: load_consumption_snd)
next
  case (Some df)
  then have a: "fst (load_consumption_data td es t) = Some df"
    using load_consumption_fst [of td es t s] by simp
  have "consumption_data t = Some df" using assms Some by (simp add: load_consumption_snd)
  then have "t\<lparr>consumption_data := Some df\<rparr> = t" by (cases t) simp
  then show ?thesis using a by (simp add: load_consumption_snd)
qed

lemma load_health_fields:
  "consumption_data (load_health_data td hs s) = consumption_data s"
  "combined_data (load_health_data td hs s) = combined_data s"
  "correlation_results (load_health_data td hs s) = correlation_results s"
  by (simp_all add: load_health_data_def Let_def)

lemma load_health_fixed:
  assumes "sleep_data t = sleep_data (load_health_data td hs s)"
    and "heart_rate_data t = heart_rate_data (load_health_data td hs s)"
  shows "load_health_data td hs t = t"
proof -
  have "t\<lparr>sleep_data := sleep_data t\<rparr> = t" "t\<lparr>heart_rate_data := heart_rate_data t\<rparr> = t"
    by (cases t, simp)+
  then show ?thesis
    using assms by (auto simp: load_health_data_def Let_def split: if_splits)
qed

lemma combined_records_cong:
  assumes "sleep_data t = sleep_data s" and "heart_rate_data t = heart_rate_data s"
    and "consumption_data t = consumption_data s"
  shows "combined_records t = combined_records s"
  using assms by (simp add: combined_records_def)

lemma combine_data_keeps:
  "sleep_data (snd (combine_data s)) = sleep_data s"
  "heart_rate_data (snd (combine_data s)) = heart_rate_data s"
  "consumption_data (snd (combine_data s)) = consumption_data s"
  "correlation_results (snd (combine_data s)) = correlation_results s"
  by (simp_all add: combine_data_def Let_def)

lemma combine_data_fst_cong:
  assumes "combined_records t = combined_records s"
  shows "fst (combine_data t) = fst (combine_data s)"
  using assms by (simp add: combine_data_def Let_def)

lemma combine_data_fixed:
  assumes "combined_records t = combined_records s"
    and "combined_data t = combined_data (snd (combine_data s))"
  shows "snd (combine_data t) = t"
proof -
  have "t\<lparr>combined_data := combined_data t\<rparr> = t" by (cases t) simp
  then show ?thesis
    using assms by (auto simp: combine_data_def Let_def split: if_splits)
qed

lemma correlation_analysis_fields:
  "sleep_data (snd (perform_correlation_analysis s)) = sleep_data s"
  "heart_rate_data (snd (perform_correlation_analysis s)) = heart_rate_data s"
  "consumption_data (snd (perform_correlation_analysis s)) = consumption_data s"
  "combined_data (snd (perform_correlation_analysis s)) = combined_data s"
  by (simp_all add: perform_correlation_analysis_def Let_def split: option.splits)

lemma correlation_analysis_fst_cong:
  assumes "combined_data t = combined_data s"
  shows "fst (perform_correlation_analysis t) = fst (perform_correlation_analysis s)"
  using assms by (simp add: perform_correlation_analysis_def Let_def split: option.splits)

lemma correlation_analysis_fixed:
  assumes "combined_data t = combined_data s"
    and "correlation_results t = correlation_results (snd (perform_correlation_analysis s))"
  shows "snd (perform_correlation_analysis t) = t"
proof -
  have "t\<lparr>correlation_results := correlation_results t\<rparr> = t" by (cases t) simp
  then show ?thesis
    using assms by (auto simp: perform_correlation_analysis_def Let_def split: option.splits if_splits)
qed

lemma ml_cong:
  assumes "combined_data t = combined_data s"
  shows "perform_machine_learning_analysis t = perform_machine_learning_analysis s"
  using assms by (simp add: perform_machine_learning_analysis_def)

lemma core_pipeline_unfold:
  "core_pipeline td es hs s =
     (let s1 = snd (load_consumption_data td es s);
          s2 = load_health_data td hs s1;
          s3 = snd (combine_data s2);
          s4 = snd (perform_correlation_analysis s3)
      in (\<lparr> out_consumption = fst (load_consumption_data td es s),
             out_combined = fst (combine_data s2),
             out_correlation = fst (perform_correlation_analysis s3),
             out_ml = perform_machine_learning_analysis s4 \<rparr>, s4))"
  by (simp add: core_pipeline_def Let_def case_prod_unfold)

text \<open>
  Claim C9: a second run of the core pipeline on the same input records, on the analyzer as
  the first run left it, returns the same outputs and leaves the same analyzer.  (The model
  has no source of randomness: \<open>pd.to_datetime\<close> is a function of its string, and
  the order in which Python iterates over the set of substance names does not show in the
  dict of effects.)
\<close>

theorem core_pipeline_rerun:
  "core_pipeline td es hs (snd (core_pipeline td es hs self)) = core_pipeline td es hs self"
proof -
  define s1 where "s1 = snd (load_consumption_data td es self)"
  define s2 where "s2 = load_health_data td hs s1"
  define s3 where "s3 = snd (combine_data s2)"
  define s4 where "s4 = snd (perform_correlation_analysis s3)"
  have first: "core_pipeline td es hs self =
       (\<lparr> out_consumption = fst (load_consumption_data td es self),
          out_combined = fst (combine_data s2),
          out_correlation = fst (perform_correlation_analysis s3),
          out_ml = perform_machine_learning_analysis s4 \<rparr>, s4)"
    by (simp add: core_pipeline_unfold Let_def s1_def s2_def s3_def s4_def)
  have c4: "consumption_data s4 = consumption_data s1"
    by (simp add: s4_def s3_def s2_def correlation_analysis_fields combine_data_keeps
        load_health_fields)
  have l1: "snd (load_consumption_data td es s4) = s4"
    unfolding s1_def [symmetric] using c4 s1_def load_consumption_fixed by blast
  have sl4: "sleep_data s4 = sleep_data s2" and hr4: "heart_rate_data s4 = heart_rate_data s2"
    and cd4: "consumption_data s4 = consumption_data s2"
    by (simp_all add: s4_def s3_def correlation_analysis_fields combine_data_keeps)
  have l2: "load_health_data td hs s4 = s4"
    using load_health_fixed [of s4 td hs s1] sl4 hr4 by (simp add: s2_def)
  have r4: "combined_records s4 = combined_records s2"
    by (rule combined_records_cong [OF sl4 hr4 cd4])
  have cb4: "combined_data s4 = combined_data s3"
    by (simp add: s4_def correlation_analysis_fields)
  have l3: "snd (combine_data s4) = s4"
    using combine_data_fixed [OF r4] cb4 by (simp add: s3_def)
  have l4: "snd (perform_correlation_analysis s4) = s4"
    using correlation_analysis_fixed [OF cb4] by (simp add: s4_def)
  have second: "core_pipeline td es hs s4 =
       (\<lparr> out_consumption = fst (load_consumption_data td es s4),
          out_combined = fst (combine_data s4),
          out_correlation = fst (perform_correlation_analysis s4),
          out_ml = perform_machine_learning_analysis s4 \<rparr>, s4)"
    by (simp add: core_pipeline_unfold Let_def l1 l2 l3 l4)
  have o1: "fst (load_consumption_data td es s4) = fst (load_consumption_data td es self)"
    by (rule load_consumption_fst)
  have o2: "fst (combine_data s4) = fst (combine_data s2)"
    by (rule combine_data_fst_cong [OF r4])
  have o3: "fst (perform_correlation_analysis s4) = fst (perform_correlation_analysis s3)"
    by (rule correlation_analysis_fst_cong [OF cb4])
  show ?thesis
    unfolding first snd_conv second o1 o2 o3 ..
qed

text \<open>
  The theorem at one entry and no health data, from a fresh analyzer.
\<close>

theorem core_pipeline_rerun_witness:
  "core_pipeline example_to_datetime [unrated_entry] []
     (snd (core_pipeline example_to_datetime [unrated_entry] [] init))
   = core_pipeline example_to_datetime [unrated_entry] [] init"
  by (rule core_pipeline_rerun)

section \<open>The five-day scenario\<close>

text \<open>The aggregator builds the five-day table from the five samples.\<close>

lemma fold_heart_rate_new:
  "distinct (map fst gs) \<Longrightarrow> fst ` set gs \<inter> date ` set rs = {} \<Longrightarrow>
     fold heart_rate_step gs rs =
       rs @ map (\<lambda>(d, grp). (set_heart_rate grp (no_keys d))\<lparr>has_sleep_data := Some False\<rparr>) gs"
proof (induction gs arbitrary: rs)
  case Nil
  then show ?case by simp
next
  case (Cons g gs)
  obtain d grp where g: "g = (d, grp)" by (cases g)
  let ?new = "(set_heart_rate grp (no_keys d))\<lparr>has_sleep_data := Some False\<rparr>"
  have no: "\<not> (\<exists>r \<in> set rs. date r = d)" using Cons.prems(2) g by auto
  then have step: "heart_rate_step g rs = rs @ [?new]" by (simp add: g heart_rate_step_def)
  have "fst ` set gs \<inter> date ` set (rs @ [?new]) = {}"
    using Cons.prems g by auto
  then have ih: "fold heart_rate_step gs (rs @ [?new]) =
      (rs @ [?new]) @ map (\<lambda>(d, grp). (set_heart_rate grp (no_keys d))\<lparr>has_sleep_data := Some False\<rparr>) gs"
    using Cons.IH Cons.prems(1) by simp
  have "fold heart_rate_step (g # gs) rs = fold heart_rate_step gs (rs @ [?new])"
    by (simp add: step)
  also note ih
  also have "(rs @ [?new]) @ map (\<lambda>(d, grp). (set_heart_rate grp (no_keys d))\<lparr>has_sleep_data := Some False\<rparr>) gs
      = rs @ map (\<lambda>(d, grp). (set_heart_rate grp (no_keys d))\<lparr>has_sleep_data := Some False\<rparr>) (g # gs)"
    by (simp add: g)
  finally show ?case .
qed

lemma hr_at_sel: "ts_date (hr_datetime (hr_at d v)) = d" "heart_rate (hr_at d v) = v"
  by (simp_all add: hr_at_def at_hour_def)

lemma five_days_groups:
  "groupby (\<lambda>x. ts_date (hr_datetime x))
     [hr_at 738886 60, hr_at 738887 62, hr_at 738888 61, hr_at 738889 63, hr_at 738890 150] =
   [(738886, [hr_at 738886 60]), (738887, [hr_at 738887 62]), (738888, [hr_at 738888 61]),
    (738889, [hr_at 738889 63]), (738890, [hr_at 738890 150])]"
  by (simp add: groupby_def hr_at_sel)

lemma single_sample_day:
  "(set_heart_rate [hr_at d v] (no_keys d))\<lparr>has_sleep_data := Some False\<rparr> = raw_hr_day d v"
  by (simp add: set_heart_rate_def raw_hr_day_def no_keys_def hr_at_sel mean_def std_def Let_def)

lemma five_days_records:
  "combined_records five_days =
     [raw_hr_day 738886 60, raw_hr_day 738887 62, raw_hr_day 738888 61, raw_hr_day 738889 63,
      raw_hr_day 738890 150]"
proof -
  have a: "sleep_data five_days = None" "consumption_data five_days = None"
    "heart_rate_data five_days =
       Some [hr_at 738886 60, hr_at 738887 62, hr_at 738888 61, hr_at 738889 63, hr_at 738890 150]"
    by (simp_all add: five_days_def init_def)
  have e: "groupby key [] = []" for key :: "'a \<Rightarrow> int" by (simp add: groupby_def)
  have "combined_records five_days =
      fold heart_rate_step
        [(738886, [hr_at 738886 60]), (738887, [hr_at 738887 62]), (738888, [hr_at 738888 61]),
         (738889, [hr_at 738889 63]), (738890, [hr_at 738890 150])] []"
    unfolding combined_records_def Let_def a rows_of.simps five_days_groups e by simp
  also have "\<dots> = [raw_hr_day 738886 60, raw_hr_day 738887 62, raw_hr_day 738888 61,
      raw_hr_day 738889 63, raw_hr_day 738890 150]"
    by (subst fold_heart_rate_new) (simp_all add: single_sample_day)
  finally show ?thesis .
qed

lemma raw_in_columns:
  "in_columns c [raw_hr_day 738886 60, raw_hr_day 738887 62, raw_hr_day 738888 61,
      raw_hr_day 738889 63, raw_hr_day 738890 150]
   \<longleftrightarrow> c \<in> {avg_heart_rate, max_heart_rate, min_heart_rate, heart_rate_std}"
  by (cases c) (simp_all add: in_columns_def raw_hr_day_def)

lemma filled_raw_hr_day:
  "filled fill_cols [raw_hr_day 738886 60, raw_hr_day 738887 62, raw_hr_day 738888 61,
      raw_hr_day 738889 63, raw_hr_day 738890 150] (raw_hr_day d v) = hr_day d v"
proof (rule row.equality)
  show "num (filled fill_cols [raw_hr_day 738886 60, raw_hr_day 738887 62, raw_hr_day 738888 61,
      raw_hr_day 738889 63, raw_hr_day 738890 150] (raw_hr_day d v)) = num (hr_day d v)"
  proof
    fix c show "num (filled fill_cols [raw_hr_day 738886 60, raw_hr_day 738887 62,
      raw_hr_day 738888 61, raw_hr_day 738889 63, raw_hr_day 738890 150] (raw_hr_day d v)) c
      = num (hr_day d v) c"
      unfolding num_filled raw_in_columns
      by (cases c) (simp_all add: fill_cols_def raw_hr_day_def hr_day_def)
  qed
qed (simp_all add: filled_def raw_hr_day_def hr_day_def)

lemma five_days_table: "fst (combine_data five_days) = Some five_day_table"
proof -
  have "sort_key date five_day_table = five_day_table"
    by (simp add: five_day_table_def hr_day_def)
  then show ?thesis
    by (simp add: combine_data_def Let_def five_days_records fold_fillna filled_raw_hr_day
        five_day_table_def)
qed

lemma combine_data_stored:
  "fst (combine_data s) = Some df \<Longrightarrow> combined_data (snd (combine_data s)) = Some df"
  by (auto simp: combine_data_def Let_def split: if_splits)

text \<open>
  Claim C3, as amended: on a non-empty table the analysis flags exactly the days whose mean
  heart rate deviates from the overall mean by more than two (sample) standard deviations;
  the anomaly percentage is count / total days * 100, and both are 0 without a heart-rate
  column.  For the five days 60, 62, 61, 63, 150 the anomaly count is 0: the value 150
  deviates from the mean 79.2 by 70.8, and two standard deviations are about 79.19.
\<close>

theorem anomaly_detection:
  assumes "combined_data self = Some df" and "df \<noteq> []"
  shows "(\<exists>res. perform_machine_learning_analysis self = Success res
            \<and> anomaly_days res = length (filter (is_anomaly_day df) df)
            \<and> anomaly_percentage res = real (anomaly_days res) / real (length df) * 100
            \<and> (\<not> in_columns avg_heart_rate df \<longrightarrow> anomaly_days res = 0 \<and> anomaly_percentage res = 0))
         \<and> (\<exists>res. fst (combine_data five_days) = Some five_day_table
                \<and> perform_machine_learning_analysis (snd (combine_data five_days)) = Success res
                \<and> total_days_analyzed res = 5 \<and> anomaly_days res = 0 \<and> anomaly_percentage res = 0)"
proof -
  have none: "filter (is_anomaly_day df) df = []" if "\<not> in_columns avg_heart_rate df"
    using that by (simp add: is_anomaly_day_def col_values_no_column mean_def filter_empty_conv
        split: cell.splits)
  have a: "\<exists>res. perform_machine_learning_analysis self = Success res
            \<and> anomaly_days res = length (filter (is_anomaly_day df) df)
            \<and> anomaly_percentage res = real (anomaly_days res) / real (length df) * 100
            \<and> (\<not> in_columns avg_heart_rate df \<longrightarrow> anomaly_days res = 0 \<and> anomaly_percentage res = 0)"
    using assms none by (simp add: perform_machine_learning_analysis_def anomalies_eq)
  have t: "five_day_table \<noteq> []" "length five_day_table = 5" by (simp_all add: five_day_table_def)
  have s: "combined_data (snd (combine_data five_days)) = Some five_day_table"
    by (rule combine_data_stored [OF five_days_table])
  have b: "\<exists>res. perform_machine_learning_analysis (snd (combine_data five_days)) = Success res
                \<and> total_days_analyzed res = 5 \<and> anomaly_days res = 0 \<and> anomaly_percentage res = 0"
    using t by (simp add: perform_machine_learning_analysis_def s anomalies_eq five_day_anomalies)
  show ?thesis using a b five_days_table by blast
qed

text \<open>
  The theorem at the analyzer that has combined the five days.
\<close>

theorem anomaly_detection_witness:
  "combined_data (snd (combine_data five_days)) = Some five_day_table
   \<and> five_day_table \<noteq> []
   \<and> (\<exists>res. perform_machine_learning_analysis (snd (combine_data five_days)) = Success res
          \<and> anomaly_days res = length (filter (is_anomaly_day five_day_table) five_day_table)
          \<and> anomaly_days res = 0)"
proof -
  have h1: "combined_data (snd (combine_data five_days)) = Some five_day_table"
    by (rule combine_data_stored [OF five_days_table])
  have h2: "five_day_table \<noteq> []" by (simp add: five_day_table_def)
  show ?thesis using anomaly_detection [OF h1 h2] h1 h2 by auto
qed

text \<open>
  C3 as stated expects the anomaly count 1 for the five days 60, 62, 61, 63, 150; the code
  counts 0.
\<close>

theorem five_day_scenario_counterexample:
  "\<exists>res. fst (combine_data five_days) = Some five_day_table
         \<and> map (\<lambda>r. num r avg_heart_rate) five_day_table = [Num 60, Num 62, Num 61, Num 63, Num 150]
         \<and> perform_machine_learning_analysis (snd (combine_data five_days)) = Success res
         \<and> anomaly_days res = 0 \<and> anomaly_days res \<noteq> 1"
proof -
  have t: "five_day_table \<noteq> []" by (simp add: five_day_table_def)
  have c: "map (\<lambda>r. num r avg_heart_rate) five_day_table = [Num 60, Num 62, Num 61, Num 63, Num 150]"
    by (simp add: five_day_table_def hr_day_def)
  have s: "combined_data (snd (combine_data five_days)) = Some five_day_table"
    by (rule combine_data_stored [OF five_days_table])
  show ?thesis using t c five_days_table
    by (simp add: perform_machine_learning_analysis_def s anomalies_eq five_day_anomalies)
qed

text \<open>
  The report guard (C1) at the analyzer that has combined the five days: the call raises.
\<close>

theorem report_raises_for_every_table_witness:
  "combined_data (snd (combine_data five_days)) = Some five_day_table
   \<and> generate_comprehensive_report (\<lambda>s. []) (snd (combine_data five_days)) = Inl ValueError"
proof -
  have h: "combined_data (snd (combine_data five_days)) = Some five_day_table"
    by (rule combine_data_stored [OF five_days_table])
  show ?thesis using report_raises_for_every_table [OF h, of "\<lambda>s. []"] h by simp
qed

end
